theory Spec2Isabelle
  imports Complex_Main
begin

section \<open>Numbers\<close>

text \<open>
  The TypeScript sources compute with \<open>number\<close>.  Positions, timestamps and landmark
  coordinates are modelled as \<^typ>\<open>real\<close> (exact arithmetic, no rounding, no NaN and no
  infinities); counters (score, combo, hit and miss counts) are modelled as \<^typ>\<open>int\<close>.
\<close>

section \<open>Scoring policy tables (gameConstants)\<close>

datatype HitRating = Perfect | Good | Miss

datatype DifficultyLevel = Easy | Medium | Hard

datatype GameStatus = Idle | Countdown | Playing | Paused | Ended

text \<open>\<open>SCORING\<close>\<close>

definition PERFECT_POINTS :: int where "PERFECT_POINTS = 100"
definition GOOD_POINTS :: int where "GOOD_POINTS = 50"
definition MISS_POINTS :: int where "MISS_POINTS = 0"

text \<open>\<open>COMBO_MULTIPLIERS\<close>: the list of (threshold, multiplier) tiers, in source order.\<close>

definition COMBO_MULTIPLIERS :: "(int \<times> int) list" where
  "COMBO_MULTIPLIERS = [(0, 1), (10, 2), (25, 3), (50, 4)]"

text \<open>\<open>HIT_ZONE\<close>\<close>

definition PERFECT_START :: real where "PERFECT_START = 0.95"
definition PERFECT_END :: real where "PERFECT_END = 1.0"
definition GOOD_START :: real where "GOOD_START = 0.85"
definition GOOD_END :: real where "GOOD_END = 0.95"

text \<open>\<open>DIFFICULTY_SETTINGS\<close>\<close>

fun arrowTravelTime :: "DifficultyLevel \<Rightarrow> real" where
  "arrowTravelTime Easy = 3000"
| "arrowTravelTime Medium = 2000"
| "arrowTravelTime Hard = 1500"

fun spawnInterval :: "DifficultyLevel \<Rightarrow> real" where
  "spawnInterval Easy = 2000"
| "spawnInterval Medium = 1500"
| "spawnInterval Hard = 1000"

text \<open>
  \<open>getComboMultiplier\<close>: the loop runs over every tier in order and overwrites the
  multiplier whenever the combo reaches the tier's threshold.
\<close>

definition getComboMultiplier :: "int \<Rightarrow> int" where
  "getComboMultiplier combo =
     fold (\<lambda>(threshold, multiplier) m. if combo \<ge> threshold then multiplier else m)
       COMBO_MULTIPLIERS 1"

text \<open>\<open>calculateHitScore\<close>: the rating argument has type \<open>'perfect' | 'good'\<close>.\<close>

definition calculateHitScore :: "HitRating \<Rightarrow> int \<Rightarrow> int" where
  "calculateHitScore rating combo =
     (let basePoints = (if rating = Perfect then PERFECT_POINTS else GOOD_POINTS);
          multiplier = getComboMultiplier combo
      in basePoints * multiplier)"

definition getHitRating :: "real \<Rightarrow> HitRating" where
  "getHitRating position =
     (if position \<ge> PERFECT_START \<and> position \<le> PERFECT_END then Perfect
      else if position \<ge> GOOD_START \<and> position < PERFECT_START then Good
      else Miss)"

definition isInHitZone :: "real \<Rightarrow> bool" where
  "isInHitZone position \<longleftrightarrow> position \<ge> GOOD_START \<and> position \<le> PERFECT_END"

definition hasMissedHitZone :: "real \<Rightarrow> bool" where
  "hasMissedHitZone position \<longleftrightarrow> position > PERFECT_END"

section \<open>Game engine data model (types)\<close>

text \<open>
  An arrow id is the string \<open>arrow-<counter>-<Date.now()>\<close>; it is determined by the two
  numbers it is printed from and is modelled as that pair.
\<close>

type_synonym ArrowId = "nat \<times> nat"

record Arrow =
  arrow_id :: ArrowId
  lane :: nat
  spawnTime :: real
  position :: real
  hit :: bool
  missed :: bool
  hitRating :: "HitRating option"

record GameState =
  status :: GameStatus
  score :: int
  combo :: int
  maxCombo :: int
  perfectHits :: int
  goodHits :: int
  misses :: int
  arrows :: "Arrow list"
  difficulty :: DifficultyLevel

record GameStats =
  stats_score :: int
  stats_maxCombo :: int
  stats_perfectHits :: int
  stats_goodHits :: int
  stats_misses :: int
  totalArrows :: nat
  accuracy :: real
  duration :: real

text \<open>\<open>HitResult\<close>: the optional fields are absent in the no-hit result \<open>{ hit: false }\<close>.\<close>

record HitResult =
  result_hit :: bool
  result_arrow :: "Arrow option"
  result_rating :: "HitRating option"
  result_score :: "int option"

text \<open>The non-null gesture types, and a gesture event.\<close>

datatype GestureKind = WaveLeft | WaveRight | Jump

record GestureEvent =
  gesture_type :: GestureKind
  gesture_timestamp :: real
  confidence :: real

fun GESTURE_TO_LANE :: "GestureKind \<Rightarrow> nat option" where
  "GESTURE_TO_LANE WaveLeft = Some 0"
| "GESTURE_TO_LANE Jump = Some 1"
| "GESTURE_TO_LANE WaveRight = Some 2"

text \<open>Calls of the collaborator callbacks, in the order they are made.\<close>

datatype Notification =
    OnHit HitResult
  | OnMiss Arrow
  | OnComboChange int int
  | OnGameEnd GameStats

section \<open>Game engine (useGameEngine)\<close>

text \<open>
  The hook keeps the session in React state and in refs.  The model is one record that
  is passed through every operation.

  \<^item> \<open>gameState\<close> is the React state with every queued updater applied: the value the
    next render shows.  An updater passed to \<open>setGameState\<close> is applied to it where
    \<open>setGameState\<close> is called.
  \<^item> \<open>gameStateRef\<close> is \<open>gameStateRef.current\<close>.  Its only assignment is the effect
    \<open>gameStateRef.current = gameState\<close>, which runs after a render (\<open>render\<close> below).
    Every read of the session in the callbacks goes through it, so between an update and
    the next render the callbacks read the session of the last render.
  \<^item> \<open>gameDurationRendered\<close> is the \<open>gameDuration\<close> of the last render, the value the
    \<open>end\<close> callback has captured.
  \<^item> \<open>pendingFrames\<close> are the handles of the animation frames requested and neither run
    nor cancelled; \<open>animationFrameRef\<close> holds the handle of the last request.
  \<^item> \<open>liveIntervals\<close> are the countdown intervals set and not cleared, each with the
    value of the variable \<open>count\<close> of its closure; \<open>countdownIntervalRef\<close> holds the
    handle of the last one set.
  \<^item> \<open>nextFrameHandle\<close> and \<open>nextTimerHandle\<close> are the next handles the browser hands
    out (positive numbers).
  \<^item> \<open>notifications\<close> is the log of the calls of the collaborator callbacks.
\<close>

record Engine =
  gameState :: GameState
  gameStateRef :: GameState
  countdown :: "int option"
  gameDuration :: real
  gameDurationRendered :: real
  finalStats :: "GameStats option"
  animationFrameRef :: "nat option"
  pendingFrames :: "nat list"
  nextFrameHandle :: nat
  lastFrameTimeRef :: real
  gameStartTimeRef :: real
  lastSpawnTimeRef :: real
  arrowIdCounterRef :: nat
  countdownIntervalRef :: "nat option"
  liveIntervals :: "(nat \<times> int) list"
  nextTimerHandle :: nat
  totalArrowsSpawnedRef :: nat
  notifications :: "Notification list"

definition createInitialGameState :: "DifficultyLevel \<Rightarrow> GameState" where
  "createInitialGameState d =
     \<lparr>status = Idle, score = 0, combo = 0, maxCombo = 0, perfectHits = 0, goodHits = 0,
      misses = 0, arrows = [], difficulty = d\<rparr>"

text \<open>The hook after its first render.\<close>

definition createEngine :: "DifficultyLevel \<Rightarrow> Engine" where
  "createEngine initialDifficulty =
     \<lparr>gameState = createInitialGameState initialDifficulty,
      gameStateRef = createInitialGameState initialDifficulty,
      countdown = None, gameDuration = 0, gameDurationRendered = 0, finalStats = None,
      animationFrameRef = None, pendingFrames = [], nextFrameHandle = 1,
      lastFrameTimeRef = 0, gameStartTimeRef = 0, lastSpawnTimeRef = 0,
      arrowIdCounterRef = 0, countdownIntervalRef = None, liveIntervals = [],
      nextTimerHandle = 1, totalArrowsSpawnedRef = 0, notifications = []\<rparr>"

text \<open>
  A render of the component followed by its effects: the ref takes the state, and the
  callbacks of the new render see the new \<open>gameDuration\<close>.
\<close>

definition render :: "Engine \<Rightarrow> Engine" where
  "render e = e\<lparr>gameStateRef := gameState e, gameDurationRendered := gameDuration e\<rparr>"

text \<open>
  \<open>animationFrameRef.current = requestAnimationFrame(gameLoopRef.current)\<close>, and
  \<open>if (animationFrameRef.current) { cancelAnimationFrame(...); animationFrameRef.current = null }\<close>.
\<close>

definition requestFrame :: "Engine \<Rightarrow> Engine" where
  "requestFrame e =
     e\<lparr>animationFrameRef := Some (nextFrameHandle e),
       pendingFrames := pendingFrames e @ [nextFrameHandle e],
       nextFrameHandle := Suc (nextFrameHandle e)\<rparr>"

definition cancelFrame :: "Engine \<Rightarrow> Engine" where
  "cancelFrame e =
     (case animationFrameRef e of
        None \<Rightarrow> e
      | Some h \<Rightarrow> e\<lparr>pendingFrames := removeAll h (pendingFrames e), animationFrameRef := None\<rparr>)"

text \<open>
  \<open>if (countdownIntervalRef.current) { clearInterval(...); countdownIntervalRef.current = null }\<close>
\<close>

definition clearCountdownInterval :: "Engine \<Rightarrow> Engine" where
  "clearCountdownInterval e =
     (case countdownIntervalRef e of
        None \<Rightarrow> e
      | Some h \<Rightarrow>
          e\<lparr>liveIntervals := filter (\<lambda>(i, c). i \<noteq> h) (liveIntervals e),
            countdownIntervalRef := None\<rparr>)"

text \<open>
  What a frame takes from outside the engine: the pattern \<open>selectRandomPattern\<close> returns
  in this frame (lanes with delays; the choice is random), and the readings of
  \<open>Date.now()\<close> in \<open>generateArrowId\<close>, indexed by the counter value of the id.
\<close>

record TickEnv =
  pattern :: "(nat \<times> real) list"
  dateNow :: "nat \<Rightarrow> nat"

text \<open>\<open>pattern.map\<close> in \<open>spawnArrows\<close>; \<open>generateArrowId\<close> increments the counter first.\<close>

fun makeArrows :: "TickEnv \<Rightarrow> real \<Rightarrow> nat \<Rightarrow> (nat \<times> real) list \<Rightarrow> Arrow list" where
  "makeArrows env currentTime c [] = []"
| "makeArrows env currentTime c ((l, delay) # ps) =
     \<lparr>arrow_id = (Suc c, dateNow env (Suc c)), lane = l, spawnTime = currentTime + delay,
      position = 0, hit = False, missed = False, hitRating = None\<rparr>
     # makeArrows env currentTime (Suc c) ps"

definition spawnArrows :: "TickEnv \<Rightarrow> real \<Rightarrow> DifficultyLevel \<Rightarrow> Engine \<Rightarrow> Arrow list \<times> Engine" where
  "spawnArrows env currentTime d e =
     (let timeSinceLastSpawn = currentTime - lastSpawnTimeRef e in
      if timeSinceLastSpawn < spawnInterval d then ([], e)
      else
        let newArrows = makeArrows env currentTime (arrowIdCounterRef e) (pattern env)
        in (newArrows,
            e\<lparr>lastSpawnTimeRef := currentTime,
              arrowIdCounterRef := arrowIdCounterRef e + length newArrows,
              totalArrowsSpawnedRef := totalArrowsSpawnedRef e + length newArrows\<rparr>))"

definition updateArrowPositions :: "Arrow list \<Rightarrow> real \<Rightarrow> DifficultyLevel \<Rightarrow> Arrow list" where
  "updateArrowPositions as currentTime d =
     map (\<lambda>arrow.
            if hit arrow \<or> missed arrow then arrow
            else
              let timeSinceSpawn = currentTime - spawnTime arrow
              in arrow\<lparr>position := max 0 (timeSinceSpawn / arrowTravelTime d)\<rparr>)
         as"

text \<open>
  \<open>checkMissedArrows\<close> returns the updated arrows, the miss count and the newly missed
  arrows (in list order).
\<close>

fun checkMissedArrows :: "Arrow list \<Rightarrow> Arrow list \<times> int \<times> Arrow list" where
  "checkMissedArrows [] = ([], 0, [])"
| "checkMissedArrows (arrow # as) =
     (case checkMissedArrows as of (updatedArrows, missCount, missedArrows) \<Rightarrow>
        if hit arrow \<or> missed arrow then (arrow # updatedArrows, missCount, missedArrows)
        else if hasMissedHitZone (position arrow) then
          (let missedArrow = arrow\<lparr>missed := True, hitRating := Some Miss\<rparr>
           in (missedArrow # updatedArrows, missCount + 1, missedArrow # missedArrows))
        else (arrow # updatedArrows, missCount, missedArrows))"

definition cleanupArrows :: "Arrow list \<Rightarrow> Arrow list" where
  "cleanupArrows as = filter (\<lambda>arrow. \<not> position arrow > 1.5) as"

text \<open>
  The frame callback \<open>gameLoopRef.current(timestamp)\<close>.  The status, the difficulty and
  the arrows of the frame are those of \<open>gameStateRef.current\<close>; the updater replaces the
  arrows of \<open>prev\<close> by the list the frame has built, and takes the misses and the combo
  from \<open>prev\<close>.
\<close>

definition gameLoop :: "TickEnv \<Rightarrow> real \<Rightarrow> Engine \<Rightarrow> Engine" where
  "gameLoop env timestamp e =
     (let state = gameStateRef e in
      if status state \<noteq> Playing then e
      else
        let e1 = e\<lparr>lastFrameTimeRef := timestamp,
                   gameDuration := timestamp - gameStartTimeRef e\<rparr>;
            (newArrows, e2) = spawnArrows env timestamp (difficulty state) e1;
            updatedArrows =
              updateArrowPositions (arrows state @ newArrows) timestamp (difficulty state);
            (arrowsAfterMiss, missCount, missedArrows) = checkMissedArrows updatedArrows;
            missNotes = (if missCount > 0 then map OnMiss missedArrows else []);
            cleaned = cleanupArrows arrowsAfterMiss;
            prev = gameState e2;
            newCombo = (if missCount > 0 then 0 else combo prev);
            comboNotes =
              (if newCombo \<noteq> combo prev
               then [OnComboChange newCombo (getComboMultiplier newCombo)] else [])
        in requestFrame
             (e2\<lparr>gameState := prev\<lparr>arrows := cleaned, misses := misses prev + missCount,
                                      combo := newCombo\<rparr>,
                  notifications := notifications e2 @ missNotes @ comboNotes\<rparr>))"

text \<open>
  \<open>start\<close>.  The new interval's handle is stored over whatever \<open>countdownIntervalRef\<close>
  held: an interval that is still live stays live.
\<close>

definition start :: "Engine \<Rightarrow> Engine" where
  "start e =
     e\<lparr>gameState := (createInitialGameState (difficulty (gameState e)))\<lparr>status := Countdown\<rparr>,
       countdown := Some 3, finalStats := None, totalArrowsSpawnedRef := 0,
       arrowIdCounterRef := 0,
       countdownIntervalRef := Some (nextTimerHandle e),
       liveIntervals := liveIntervals e @ [(nextTimerHandle e, 3)],
       nextTimerHandle := Suc (nextTimerHandle e)\<rparr>"

text \<open>
  The callback of the interval of handle \<open>h\<close>, installed by \<open>start\<close>; \<open>now\<close> is the
  reading of \<open>performance.now()\<close>.  A cleared interval does not call back.  At the end of
  the countdown the callback clears the interval that \<open>countdownIntervalRef\<close> holds.
\<close>

definition countdownTick :: "nat \<Rightarrow> real \<Rightarrow> Engine \<Rightarrow> Engine" where
  "countdownTick h now e =
     (case map_of (liveIntervals e) h of
        None \<Rightarrow> e
      | Some c \<Rightarrow>
          let count = c - 1;
              e1 = e\<lparr>liveIntervals :=
                       map (\<lambda>(i, k). if i = h then (i, count) else (i, k)) (liveIntervals e)\<rparr>
          in
          if count > 0 then e1\<lparr>countdown := Some count\<rparr>
          else
            let e2 = clearCountdownInterval e1;
                e3 = e2\<lparr>countdown := None,
                        gameStartTimeRef := now, lastSpawnTimeRef := now,
                        lastFrameTimeRef := now,
                        gameState := (gameState e2)\<lparr>status := Playing\<rparr>\<rparr>
            in requestFrame e3)"

definition pause :: "Engine \<Rightarrow> Engine" where
  "pause e =
     (if status (gameStateRef e) \<noteq> Playing then e
      else
        let e1 = cancelFrame e
        in e1\<lparr>gameState := (gameState e1)\<lparr>status := Paused\<rparr>\<rparr>)"

definition resume :: "real \<Rightarrow> Engine \<Rightarrow> Engine" where
  "resume now e =
     (if status (gameStateRef e) \<noteq> Paused then e
      else
        requestFrame
          (e\<lparr>lastFrameTimeRef := now,
             gameState := (gameState e)\<lparr>status := Playing\<rparr>\<rparr>))"

text \<open>
  \<open>end\<close> of the hook (\<open>endGame\<close> at its caller).  The statistics are computed from
  \<open>gameStateRef.current\<close> and the captured \<open>gameDuration\<close>; the status is set on \<open>prev\<close>.
\<close>

definition endGame :: "Engine \<Rightarrow> Engine" where
  "endGame e =
     (let e1 = clearCountdownInterval (cancelFrame e);
          state = gameStateRef e1;
          totalHits = perfectHits state + goodHits state;
          totalAttempts = totalHits + misses state;
          stats = \<lparr>stats_score = score state, stats_maxCombo = maxCombo state,
                   stats_perfectHits = perfectHits state, stats_goodHits = goodHits state,
                   stats_misses = misses state, totalArrows = totalArrowsSpawnedRef e1,
                   accuracy = (if totalAttempts > 0
                               then (real_of_int totalHits / real_of_int totalAttempts) * 100
                               else 0),
                   duration = gameDurationRendered e1\<rparr>
      in e1\<lparr>finalStats := Some stats,
            gameState := (gameState e1)\<lparr>status := Ended\<rparr>,
            countdown := None,
            notifications := notifications e1 @ [OnGameEnd stats]\<rparr>)"

definition reset :: "Engine \<Rightarrow> Engine" where
  "reset e =
     (let e1 = clearCountdownInterval (cancelFrame e)
      in e1\<lparr>gameState := createInitialGameState (difficulty (gameState e1)),
            countdown := None, gameDuration := 0, finalStats := None,
            totalArrowsSpawnedRef := 0, arrowIdCounterRef := 0\<rparr>)"

definition setDifficulty :: "DifficultyLevel \<Rightarrow> Engine \<Rightarrow> Engine" where
  "setDifficulty d e = e\<lparr>gameState := (gameState e)\<lparr>difficulty := d\<rparr>\<rparr>"

definition noHit :: HitResult where
  "noHit = \<lparr>result_hit = False, result_arrow = None, result_rating = None,
            result_score = None\<rparr>"

text \<open>
  \<open>processGesture\<close>.  The status, the candidates, the rating and the new combo are taken
  from \<open>gameStateRef.current\<close>; the updater marks the arrows of \<open>prev\<close> that carry the
  id of the chosen arrow and adds to the counters of \<open>prev\<close>.
  \<open>Array.prototype.sort\<close> is stable, and so is \<^const>\<open>sort_key\<close>; the comparator orders
  by the distance of the position to \<open>HIT_ZONE.PERFECT_START\<close>.
\<close>

definition processGesture :: "GestureEvent \<Rightarrow> Engine \<Rightarrow> HitResult \<times> Engine" where
  "processGesture gesture e =
     (let state = gameStateRef e in
      if status state \<noteq> Playing then (noHit, e)
      else
        case GESTURE_TO_LANE (gesture_type gesture) of
          None \<Rightarrow> (noHit, e)
        | Some gestureLane \<Rightarrow>
            let targetArrows =
                  sort_key (\<lambda>a. \<bar>position a - PERFECT_START\<bar>)
                    (filter (\<lambda>arrow. lane arrow = gestureLane \<and> \<not> hit arrow \<and>
                                      \<not> missed arrow \<and> isInHitZone (position arrow))
                       (arrows state))
            in (case targetArrows of
                 [] \<Rightarrow> (noHit, e)
               | hitArrow # _ \<Rightarrow>
                   let rating = getHitRating (position hitArrow) in
                   if rating = Miss then (noHit, e)
                   else
                     let newCombo = combo state + 1;
                         points = calculateHitScore rating newCombo;
                         prev = gameState e;
                         updatedArrows =
                           map (\<lambda>arrow. if arrow_id arrow = arrow_id hitArrow
                                        then arrow\<lparr>hit := True, hitRating := Some rating\<rparr>
                                        else arrow)
                               (arrows prev);
                         newMaxCombo = max (maxCombo prev) newCombo;
                         multiplier = getComboMultiplier newCombo;
                         result = \<lparr>result_hit = True, result_arrow = Some hitArrow,
                                    result_rating = Some rating, result_score = Some points\<rparr>
                     in (result,
                         e\<lparr>gameState :=
                             prev\<lparr>arrows := updatedArrows,
                                  score := score prev + points,
                                  combo := newCombo,
                                  maxCombo := newMaxCombo,
                                  perfectHits := (if rating = Perfect then perfectHits prev + 1
                                                  else perfectHits prev),
                                  goodHits := (if rating = Good then goodHits prev + 1
                                               else goodHits prev)\<rparr>,
                           notifications :=
                             notifications e @ [OnComboChange newCombo multiplier, OnHit result]\<rparr>)))"

section \<open>Pose data model (types)\<close>

text \<open>Indices of \<open>POSE_LANDMARKS\<close> that the classifier and the calibration read.\<close>

definition NOSE :: nat where "NOSE = 0"
definition LEFT_SHOULDER :: nat where "LEFT_SHOULDER = 11"
definition RIGHT_SHOULDER :: nat where "RIGHT_SHOULDER = 12"
definition LEFT_WRIST :: nat where "LEFT_WRIST = 15"
definition RIGHT_WRIST :: nat where "RIGHT_WRIST = 16"
definition LEFT_HIP :: nat where "LEFT_HIP = 23"
definition RIGHT_HIP :: nat where "RIGHT_HIP = 24"
definition LEFT_ANKLE :: nat where "LEFT_ANKLE = 27"
definition RIGHT_ANKLE :: nat where "RIGHT_ANKLE = 28"

text \<open>A landmark; \<open>visibility\<close> is an optional field.\<close>

record Landmark =
  lm_x :: real
  lm_y :: real
  lm_z :: real
  visibility :: "real option"

record PoseResult =
  landmarks :: "Landmark list"
  worldLandmarks :: "Landmark list option"
  pose_timestamp :: real

record CalibrationData =
  cal_leftHip :: Landmark
  cal_rightHip :: Landmark
  cal_leftShoulder :: Landmark
  cal_rightShoulder :: Landmark
  cal_nose :: Landmark
  cal_leftWrist :: Landmark
  cal_rightWrist :: Landmark
  hipCenterY :: real
  shoulderCenterY :: real
  cal_timestamp :: real

text \<open>\<open>landmarks[i]\<close>: reading past the end of a JavaScript array gives \<open>undefined\<close>.\<close>

definition landmarkAt :: "Landmark list \<Rightarrow> nat \<Rightarrow> Landmark option" where
  "landmarkAt lms i = (if i < length lms then Some (lms ! i) else None)"

text \<open>\<open>lm.visibility ?? d\<close>\<close>

definition visibilityOr :: "real \<Rightarrow> Landmark \<Rightarrow> real" where
  "visibilityOr d lm = (case visibility lm of None \<Rightarrow> d | Some v \<Rightarrow> v)"

section \<open>Calibration (calculateCalibration)\<close>

text \<open>
  The loop of \<open>averageLandmark\<close> over the captured poses, with its five accumulators
  \<open>sumX\<close>, \<open>sumY\<close>, \<open>sumZ\<close>, \<open>sumVis\<close> and \<open>count\<close>.
\<close>

definition averageStep ::
  "nat \<Rightarrow> PoseResult \<Rightarrow> real \<times> real \<times> real \<times> real \<times> nat \<Rightarrow> real \<times> real \<times> real \<times> real \<times> nat" where
  "averageStep landmarkIndex pose acc =
     (case acc of (sumX, sumY, sumZ, sumVis, count) \<Rightarrow>
        (case landmarkAt (landmarks pose) landmarkIndex of
           None \<Rightarrow> acc
         | Some lm \<Rightarrow>
             if visibilityOr 0 lm > 0.5
             then (sumX + lm_x lm, sumY + lm_y lm, sumZ + lm_z lm,
                   sumVis + visibilityOr 1 lm, count + 1)
             else acc))"

definition averageLandmark :: "nat \<Rightarrow> PoseResult list \<Rightarrow> Landmark" where
  "averageLandmark landmarkIndex poses =
     (case fold (averageStep landmarkIndex) poses (0, 0, 0, 0, 0) of
        (sumX, sumY, sumZ, sumVis, count) \<Rightarrow>
          if count = 0 then \<lparr>lm_x = 0.5, lm_y = 0.5, lm_z = 0, visibility = Some 0\<rparr>
          else \<lparr>lm_x = sumX / real count, lm_y = sumY / real count,
                lm_z = sumZ / real count, visibility = Some (sumVis / real count)\<rparr>)"

text \<open>\<open>now\<close> is the reading of \<open>Date.now()\<close>.\<close>

definition calculateCalibration :: "PoseResult list \<Rightarrow> real \<Rightarrow> CalibrationData" where
  "calculateCalibration poses now =
     (let leftHip = averageLandmark LEFT_HIP poses;
          rightHip = averageLandmark RIGHT_HIP poses;
          leftShoulder = averageLandmark LEFT_SHOULDER poses;
          rightShoulder = averageLandmark RIGHT_SHOULDER poses;
          nose = averageLandmark NOSE poses;
          leftWr = averageLandmark LEFT_WRIST poses;
          rightWr = averageLandmark RIGHT_WRIST poses
      in \<lparr>cal_leftHip = leftHip, cal_rightHip = rightHip,
           cal_leftShoulder = leftShoulder, cal_rightShoulder = rightShoulder,
           cal_nose = nose, cal_leftWrist = leftWr, cal_rightWrist = rightWr,
           hipCenterY = (lm_y leftHip + lm_y rightHip) / 2,
           shoulderCenterY = (lm_y leftShoulder + lm_y rightShoulder) / 2,
           cal_timestamp = now\<rparr>)"

text \<open>
  The specification's wording of the average of one landmark, for comparison with the
  loop: the qualifying samples are the landmarks at that index whose visibility is above
  0.5, their coordinates are averaged, and without a qualifying sample the default
  landmark is returned.
\<close>

definition qualifyingSamples :: "nat \<Rightarrow> PoseResult list \<Rightarrow> Landmark list" where
  "qualifyingSamples landmarkIndex poses =
     filter (\<lambda>lm. visibilityOr 0 lm > 0.5)
       (concat (map (\<lambda>pose. case landmarkAt (landmarks pose) landmarkIndex of
                                None \<Rightarrow> [] | Some lm \<Rightarrow> [lm]) poses))"

definition averageLandmark_spec :: "nat \<Rightarrow> PoseResult list \<Rightarrow> Landmark" where
  "averageLandmark_spec landmarkIndex poses =
     (let q = qualifyingSamples landmarkIndex poses; n = real (length q) in
      if q = [] then \<lparr>lm_x = 0.5, lm_y = 0.5, lm_z = 0, visibility = Some 0\<rparr>
      else \<lparr>lm_x = sum_list (map lm_x q) / n, lm_y = sum_list (map lm_y q) / n,
            lm_z = sum_list (map lm_z q) / n,
            visibility = Some (sum_list (map (visibilityOr 1) q) / n)\<rparr>)"

section \<open>Gesture classifier (gestureDetection)\<close>

record PositionSample =
  sample_y :: real
  sample_timestamp :: real

record WristTrackingState =
  samples :: "PositionSample list"
  lastGestureTime :: real

record JumpTrackingState =
  isInJump :: bool
  jump_lastGestureTime :: real

record GestureTrackingState =
  leftWrist :: WristTrackingState
  rightWrist :: WristTrackingState
  jump :: JumpTrackingState

record GestureOptions =
  waveThreshold :: real
  waveTimeWindow :: real
  jumpThreshold :: real
  debounceTime :: real

definition DEFAULT_GESTURE_OPTIONS :: GestureOptions where
  "DEFAULT_GESTURE_OPTIONS =
     \<lparr>waveThreshold = 0.05, waveTimeWindow = 500, jumpThreshold = 0.08, debounceTime = 500\<rparr>"

definition createInitialGestureState :: GestureTrackingState where
  "createInitialGestureState =
     \<lparr>leftWrist = \<lparr>samples = [], lastGestureTime = 0\<rparr>,
      rightWrist = \<lparr>samples = [], lastGestureTime = 0\<rparr>,
      jump = \<lparr>isInJump = False, jump_lastGestureTime = 0\<rparr>\<rparr>"

definition addPositionSample ::
  "WristTrackingState \<Rightarrow> real \<Rightarrow> real \<Rightarrow> real \<Rightarrow> WristTrackingState" where
  "addPositionSample st y timestamp timeWindow =
     (let cutoffTime = timestamp - timeWindow
      in st\<lparr>samples := filter (\<lambda>s. sample_timestamp s > cutoffTime) (samples st)
                         @ [\<lparr>sample_y = y, sample_timestamp = timestamp\<rparr>]\<rparr>)"

text \<open>Results of the detectors.\<close>

record WaveResult =
  detected :: bool
  wave_confidence :: real

record JumpResult =
  jump_detected :: bool
  jump_newState :: JumpTrackingState
  jump_confidence :: real

record FrameResult =
  gesture :: "GestureKind option"
  newState :: GestureTrackingState
  frame_confidence :: real

text \<open>
  The loop of \<open>detectWave\<close> over the samples.  \<open>minY\<close> starts at \<open>Infinity\<close> and
  \<open>maxY\<close> at \<open>-Infinity\<close>: \<open>None\<close> stands for the infinite start value, which every
  sample replaces.
\<close>

definition waveScan ::
  "PositionSample \<Rightarrow> real option \<times> real option \<times> real \<times> real
     \<Rightarrow> real option \<times> real option \<times> real \<times> real" where
  "waveScan sample acc =
     (case acc of (minY, maxY, minTime, maxTime) \<Rightarrow>
        let below = (case minY of None \<Rightarrow> True | Some m \<Rightarrow> sample_y sample < m);
            above = (case maxY of None \<Rightarrow> True | Some m \<Rightarrow> sample_y sample > m)
        in (if below then Some (sample_y sample) else minY,
            if above then Some (sample_y sample) else maxY,
            if below then sample_timestamp sample else minTime,
            if above then sample_timestamp sample else maxTime))"

definition noWave :: WaveResult where
  "noWave = \<lparr>detected = False, wave_confidence = 0\<rparr>"

text \<open>
  With fewer than three samples the function returns early, so after the loop both
  extremes are finite; the last case covers the start values left in place, where the
  amplitude \<open>-Infinity\<close> is below every threshold.
\<close>

definition detectWave :: "PositionSample list \<Rightarrow> real \<Rightarrow> WaveResult" where
  "detectWave smps threshold =
     (if length smps < 3 then noWave
      else
        case fold waveScan smps (None, None, 0, 0) of
          (Some minY, Some maxY, minTime, maxTime) \<Rightarrow>
            let amplitude = maxY - minY in
            if amplitude < threshold then noWave
            else
              let hasOscillation = \<bar>minTime - maxTime\<bar> > 50 in
              if \<not> hasOscillation then noWave
              else \<lparr>detected = True, wave_confidence = min 1 (amplitude / (threshold * 2))\<rparr>
        | _ \<Rightarrow> noWave)"

text \<open>
  \<open>detectJump\<close>.  The function reads the wall clock: \<open>now\<close> is the reading of
  \<open>Date.now()\<close> stored as \<open>lastGestureTime\<close> of a detected jump.  The calibration's
  hip landmarks are objects, so the test \<open>calibration.leftHip && calibration.rightHip\<close>
  holds.
\<close>

definition detectJump ::
  "Landmark list \<Rightarrow> CalibrationData \<Rightarrow> JumpTrackingState \<Rightarrow> real \<Rightarrow> real \<Rightarrow> JumpResult" where
  "detectJump lms calibration st threshold now =
     (case (landmarkAt lms LEFT_HIP, landmarkAt lms RIGHT_HIP) of
        (Some leftHip, Some rightHip) \<Rightarrow>
          let leftVisible = visibilityOr 0 leftHip > 0.5;
              rightVisible = visibilityOr 0 rightHip > 0.5
          in
          if \<not> leftVisible \<and> \<not> rightVisible
          then \<lparr>jump_detected = False, jump_newState = st, jump_confidence = 0\<rparr>
          else
            let currentHipY = (lm_y leftHip + lm_y rightHip) / 2;
                baselineHipY = hipCenterY calibration;
                rise = baselineHipY - currentHipY;
                ankleRise =
                  (case (landmarkAt lms LEFT_ANKLE, landmarkAt lms RIGHT_ANKLE) of
                     (Some leftAnkle, Some rightAnkle) \<Rightarrow>
                       let baselineAnkleY = hipCenterY calibration + 0.3;
                           currentAnkleY = (lm_y leftAnkle + lm_y rightAnkle) / 2
                       in baselineAnkleY - currentAnkleY
                   | _ \<Rightarrow> 0);
                isJumping = rise > threshold
            in
            if isJumping \<and> \<not> isInJump st then
              let jumpConfidence = min 1 (rise / (threshold * 2));
                  ankleBonus = (if ankleRise > threshold * 0.5 then 0.1 else 0);
                  conf = min 1 (jumpConfidence + ankleBonus)
              in \<lparr>jump_detected = True,
                   jump_newState = \<lparr>isInJump = True, jump_lastGestureTime = now\<rparr>,
                   jump_confidence = conf\<rparr>
            else if \<not> isJumping \<and> isInJump st then
              \<lparr>jump_detected = False,
                jump_newState = \<lparr>isInJump = False,
                                  jump_lastGestureTime = jump_lastGestureTime st\<rparr>,
                jump_confidence = 0\<rparr>
            else \<lparr>jump_detected = False, jump_newState = st, jump_confidence = 0\<rparr>
      | _ \<Rightarrow> \<lparr>jump_detected = False, jump_newState = st, jump_confidence = 0\<rparr>)"

text \<open>
  \<open>processGestureFrame\<close> updates three local variables in sequence: \<open>newState\<close>,
  \<open>detectedGesture\<close> and \<open>confidence\<close>.  Each of its three blocks is a function on
  that triple; \<open>state\<close> is the state passed in.
\<close>

type_synonym FrameVars = "GestureTrackingState \<times> GestureKind option \<times> real"

definition leftWristBlock ::
  "Landmark list \<Rightarrow> GestureTrackingState \<Rightarrow> real \<Rightarrow> GestureOptions \<Rightarrow> FrameVars \<Rightarrow> FrameVars" where
  "leftWristBlock lms state timestamp options vars =
     (case vars of (ns, detectedGesture, conf) \<Rightarrow>
        (case landmarkAt lms LEFT_WRIST of
           None \<Rightarrow> vars
         | Some lw \<Rightarrow>
             if \<not> visibilityOr 0 lw > 0.5 then vars
             else
               let ns1 = ns\<lparr>leftWrist := addPositionSample (leftWrist state) (lm_y lw)
                                             timestamp (waveTimeWindow options)\<rparr>;
                   timeSinceLastGesture = timestamp - lastGestureTime (leftWrist state)
               in
               if timeSinceLastGesture > debounceTime options then
                 let waveResult = detectWave (samples (leftWrist ns1)) (waveThreshold options)
                 in
                 if detected waveResult
                 then (ns1\<lparr>leftWrist := \<lparr>samples = [], lastGestureTime = timestamp\<rparr>\<rparr>,
                       Some WaveLeft, wave_confidence waveResult)
                 else (ns1, detectedGesture, conf)
               else (ns1, detectedGesture, conf)))"

definition rightWristBlock ::
  "Landmark list \<Rightarrow> GestureTrackingState \<Rightarrow> real \<Rightarrow> GestureOptions \<Rightarrow> FrameVars \<Rightarrow> FrameVars" where
  "rightWristBlock lms state timestamp options vars =
     (case vars of (ns, detectedGesture, conf) \<Rightarrow>
        if detectedGesture \<noteq> None then vars
        else
          (case landmarkAt lms RIGHT_WRIST of
             None \<Rightarrow> vars
           | Some rw \<Rightarrow>
               if \<not> visibilityOr 0 rw > 0.5 then vars
               else
                 let ns1 = ns\<lparr>rightWrist := addPositionSample (rightWrist state) (lm_y rw)
                                                timestamp (waveTimeWindow options)\<rparr>;
                     timeSinceLastGesture = timestamp - lastGestureTime (rightWrist state)
                 in
                 if timeSinceLastGesture > debounceTime options then
                   let waveResult =
                         detectWave (samples (rightWrist ns1)) (waveThreshold options)
                   in
                   if detected waveResult
                   then (ns1\<lparr>rightWrist := \<lparr>samples = [], lastGestureTime = timestamp\<rparr>\<rparr>,
                         Some WaveRight, wave_confidence waveResult)
                   else (ns1, detectedGesture, conf)
                 else (ns1, detectedGesture, conf)))"

definition jumpBlock ::
  "Landmark list \<Rightarrow> CalibrationData \<Rightarrow> GestureTrackingState \<Rightarrow> real \<Rightarrow> GestureOptions \<Rightarrow> real
     \<Rightarrow> FrameVars \<Rightarrow> FrameVars" where
  "jumpBlock lms calibration state timestamp options now vars =
     (case vars of (ns, detectedGesture, conf) \<Rightarrow>
        if detectedGesture \<noteq> None then vars
        else
          let timeSinceLastJump = timestamp - jump_lastGestureTime (jump state);
              jumpResult = detectJump lms calibration (jump state) (jumpThreshold options) now
          in
          if timeSinceLastJump > debounceTime options then
            let ns1 = ns\<lparr>jump := jump_newState jumpResult\<rparr> in
            if jump_detected jumpResult
            then (ns1, Some Jump, jump_confidence jumpResult)
            else (ns1, detectedGesture, conf)
          else
            (ns\<lparr>jump := (jump_newState jumpResult)
                            \<lparr>jump_lastGestureTime := jump_lastGestureTime (jump state)\<rparr>\<rparr>,
             detectedGesture, conf))"

definition processGestureFrame ::
  "Landmark list \<Rightarrow> CalibrationData \<Rightarrow> GestureTrackingState \<Rightarrow> real \<Rightarrow> GestureOptions \<Rightarrow> real
     \<Rightarrow> FrameResult" where
  "processGestureFrame lms calibration state timestamp options now =
     (case jumpBlock lms calibration state timestamp options now
             (rightWristBlock lms state timestamp options
                (leftWristBlock lms state timestamp options (state, None, 0))) of
        (ns, detectedGesture, conf) \<Rightarrow>
          \<lparr>gesture = detectedGesture, newState = ns, frame_confidence = conf\<rparr>)"

section \<open>Engine runs\<close>

text \<open>
  The operations of the hook as events, and the engine after a sequence of events.
  \<open>Frame h\<close> is the run of the frame callback requested under handle \<open>h\<close> (nothing
  happens when that request is not pending), \<open>CountdownEv h\<close> one run of the callback
  of the countdown interval of handle \<open>h\<close>, and \<open>RenderEv\<close> a render of the component
  with its effects.
\<close>

datatype EngineEvent =
    Frame nat TickEnv real
  | GestureEv GestureEvent
  | PauseEv
  | ResumeEv real
  | EndEv
  | SetDifficultyEv DifficultyLevel
  | CountdownEv nat real
  | StartEv
  | ResetEv
  | RenderEv

definition frameCallback :: "nat \<Rightarrow> TickEnv \<Rightarrow> real \<Rightarrow> Engine \<Rightarrow> Engine" where
  "frameCallback h env timestamp e =
     (if h \<in> set (pendingFrames e)
      then gameLoop env timestamp (e\<lparr>pendingFrames := removeAll h (pendingFrames e)\<rparr>)
      else e)"

fun step :: "EngineEvent \<Rightarrow> Engine \<Rightarrow> Engine" where
  "step (Frame h env timestamp) e = frameCallback h env timestamp e"
| "step (GestureEv g) e = snd (processGesture g e)"
| "step PauseEv e = pause e"
| "step (ResumeEv now) e = resume now e"
| "step EndEv e = endGame e"
| "step (SetDifficultyEv d) e = setDifficulty d e"
| "step (CountdownEv h now) e = countdownTick h now e"
| "step StartEv e = start e"
| "step ResetEv e = reset e"
| "step RenderEv e = render e"

definition run :: "EngineEvent list \<Rightarrow> Engine \<Rightarrow> Engine" where
  "run evs e = fold step evs e"

text \<open>\<open>start\<close> and \<open>reset\<close> replace the session by a fresh one.\<close>

fun resetsSession :: "EngineEvent \<Rightarrow> bool" where
  "resetsSession StartEv = True"
| "resetsSession ResetEv = True"
| "resetsSession _ = False"

fun isFrame :: "EngineEvent \<Rightarrow> bool" where
  "isFrame (Frame h env timestamp) = True"
| "isFrame _ = False"

text \<open>A sequence of events with a render after each of them.\<close>

fun withRenders :: "EngineEvent list \<Rightarrow> EngineEvent list" where
  "withRenders [] = []"
| "withRenders (ev # evs) = ev # RenderEv # withRenders evs"

section \<open>Notions used in the statements\<close>

text \<open>
  A hit candidate of a lane: an unresolved arrow of that lane with position in
  \<open>[0.85, 1.0]\<close>.
\<close>

definition hitCandidate :: "nat \<Rightarrow> Arrow \<Rightarrow> bool" where
  "hitCandidate l a \<longleftrightarrow>
     lane a = l \<and> \<not> hit a \<and> \<not> missed a \<and> 0.85 \<le> position a \<and> position a \<le> 1.0"

text \<open>An arrow that a frame marks as missed: unresolved and past position 1.0.\<close>

definition newlyMissed :: "Arrow \<Rightarrow> bool" where
  "newlyMissed a \<longleftrightarrow> \<not> hit a \<and> \<not> missed a \<and> position a > 1.0"

text \<open>
  The arrows of a frame after its spawn and advance steps, before miss detection: the
  argument \<open>gameLoop\<close> passes to \<open>checkMissedArrows\<close>.
\<close>

definition advancedArrows :: "TickEnv \<Rightarrow> real \<Rightarrow> Engine \<Rightarrow> Arrow list" where
  "advancedArrows env timestamp e =
     updateArrowPositions
       (arrows (gameStateRef e)
          @ fst (spawnArrows env timestamp (difficulty (gameStateRef e)) e))
       timestamp (difficulty (gameStateRef e))"

text \<open>
  The session has been rendered since its last update: the ref holds the state.
\<close>

definition rendered :: "Engine \<Rightarrow> bool" where
  "rendered e \<longleftrightarrow> gameStateRef e = gameState e"

text \<open>
  An invariant of the session: arrow ids are unique, every id was issued by the id
  counter, and every hit arrow lies at or before the hit line.
\<close>

definition sessionInv :: "Engine \<Rightarrow> bool" where
  "sessionInv e \<longleftrightarrow>
     distinct (map arrow_id (arrows (gameState e))) \<and>
     (\<forall>a\<in>set (arrows (gameState e)). fst (arrow_id a) \<le> arrowIdCounterRef e) \<and>
     (\<forall>a\<in>set (arrows (gameState e)). hit a \<longrightarrow> position a \<le> 1.0)"

text \<open>Whether a frame samples the wrist at a landmark index: present and visibility above 0.5.\<close>

definition wristVisible :: "Landmark list \<Rightarrow> nat \<Rightarrow> bool" where
  "wristVisible lms i =
     (case landmarkAt lms i of None \<Rightarrow> False | Some lw \<Rightarrow> visibilityOr 0 lw > 0.5)"

section \<open>Sample inputs\<close>

definition sampleArrow :: "nat \<Rightarrow> nat \<Rightarrow> real \<Rightarrow> Arrow" where
  "sampleArrow n l p =
     \<lparr>arrow_id = (n, 0), lane = l, spawnTime = 0, position = p, hit = False, missed = False,
      hitRating = None\<rparr>"

text \<open>
  A rendered session in play on easy difficulty with combo 7, the given arrows and one
  frame requested.
\<close>

definition samplePlaying :: "Arrow list \<Rightarrow> Engine" where
  "samplePlaying as =
     (createEngine Easy)
       \<lparr>gameState := (createInitialGameState Easy)\<lparr>status := Playing, combo := 7, arrows := as\<rparr>,
        gameStateRef := (createInitialGameState Easy)\<lparr>status := Playing, combo := 7, arrows := as\<rparr>,
        animationFrameRef := Some 1, pendingFrames := [1], nextFrameHandle := 2\<rparr>"

definition sampleWaveLeft :: GestureEvent where
  "sampleWaveLeft = \<lparr>gesture_type = WaveLeft, gesture_timestamp = 0, confidence = 1\<rparr>"

definition sampleEnv :: TickEnv where
  "sampleEnv = \<lparr>pattern = [(1, 0)], dateNow = (\<lambda>n. 0)\<rparr>"


definition sampleOne :: Engine where
  "sampleOne = samplePlaying [sampleArrow 11 0 0.97]"

text \<open>Sample frames of 33 landmarks and sample windows.\<close>

definition hiddenLandmark :: Landmark where
  "hiddenLandmark = \<lparr>lm_x = 0.5, lm_y = 0.5, lm_z = 0, visibility = Some 0.3\<rparr>"

definition sampleHiddenLandmarks :: "Landmark list" where
  "sampleHiddenLandmarks = replicate 33 hiddenLandmark"

definition sampleWristLandmarks :: "Landmark list" where
  "sampleWristLandmarks =
     (replicate 33 hiddenLandmark)
       [LEFT_WRIST := \<lparr>lm_x = 0.3, lm_y = 0.5, lm_z = 0, visibility = Some 0.9\<rparr>,
        RIGHT_WRIST := \<lparr>lm_x = 0.7, lm_y = 0.5, lm_z = 0, visibility = Some 0.9\<rparr>]"

definition sampleJumpLandmarks :: "Landmark list" where
  "sampleJumpLandmarks =
     (replicate 33 hiddenLandmark)
       [LEFT_HIP := \<lparr>lm_x = 0.4, lm_y = 0.3, lm_z = 0, visibility = Some 0.9\<rparr>,
        RIGHT_HIP := \<lparr>lm_x = 0.6, lm_y = 0.3, lm_z = 0, visibility = Some 0.9\<rparr>]"

definition sampleCalibration :: CalibrationData where
  "sampleCalibration = calculateCalibration [] 0"

definition sampleMonotonicRise :: "PositionSample list" where
  "sampleMonotonicRise =
     [\<lparr>sample_y = 0.60, sample_timestamp = 0\<rparr>,
      \<lparr>sample_y = 0.55, sample_timestamp = 150\<rparr>,
      \<lparr>sample_y = 0.50, sample_timestamp = 300\<rparr>]"

definition sampleRiseThenFall :: "PositionSample list" where
  "sampleRiseThenFall =
     [\<lparr>sample_y = 0.60, sample_timestamp = 0\<rparr>,
      \<lparr>sample_y = 0.55, sample_timestamp = 150\<rparr>,
      \<lparr>sample_y = 0.50, sample_timestamp = 300\<rparr>,
      \<lparr>sample_y = 0.55, sample_timestamp = 400\<rparr>,
      \<lparr>sample_y = 0.60, sample_timestamp = 500\<rparr>]"


text \<open>The tracking state after a first frame at timestamp 0 with both wrists visible.\<close>

definition sampleTrackedState :: GestureTrackingState where
  "sampleTrackedState =
     newState (processGestureFrame sampleWristLandmarks sampleCalibration
                 createInitialGestureState 0 DEFAULT_GESTURE_OPTIONS 0)"


text \<open>
  Two captured poses: in the second one the left hip has visibility 0.3 and the right
  hip has visibility 0.9.  The third differs from the second in the right hip only.
\<close>

definition samplePose1 :: PoseResult where
  "samplePose1 =
     \<lparr>landmarks =
        (replicate 33 hiddenLandmark)
          [LEFT_HIP := \<lparr>lm_x = 0.4, lm_y = 0.6, lm_z = 0, visibility = Some 0.9\<rparr>,
           RIGHT_HIP := \<lparr>lm_x = 0.6, lm_y = 0.6, lm_z = 0, visibility = Some 0.9\<rparr>],
      worldLandmarks = None, pose_timestamp = 0\<rparr>"

definition samplePose2 :: PoseResult where
  "samplePose2 =
     \<lparr>landmarks =
        (replicate 33 hiddenLandmark)
          [LEFT_HIP := \<lparr>lm_x = 0.4, lm_y = 0.8, lm_z = 0, visibility = Some 0.3\<rparr>,
           RIGHT_HIP := \<lparr>lm_x = 0.6, lm_y = 0.8, lm_z = 0, visibility = Some 0.9\<rparr>],
      worldLandmarks = None, pose_timestamp = 33\<rparr>"

definition samplePose3 :: PoseResult where
  "samplePose3 =
     \<lparr>landmarks =
        (replicate 33 hiddenLandmark)
          [LEFT_HIP := \<lparr>lm_x = 0.4, lm_y = 0.8, lm_z = 0, visibility = Some 0.3\<rparr>],
      worldLandmarks = None, pose_timestamp = 33\<rparr>"

section \<open>Policy table properties\<close>

lemma getComboMultiplier_tiers:
  "getComboMultiplier c = (if c \<ge> 50 then 4 else if c \<ge> 25 then 3 else if c \<ge> 10 then 2 else 1)"
  by (simp add: getComboMultiplier_def COMBO_MULTIPLIERS_def)

text \<open>
  C6.  For every position \<open>p\<close>, \<open>getHitRating p\<close> is perfect exactly when
  \<open>0.95 \<le> p \<le> 1.0\<close>, good exactly when \<open>0.85 \<le> p < 0.95\<close>, and miss in every other
  case; the five boundary samples of the specification evaluate as stated.
\<close>

theorem getHitRating_zones:
  "(getHitRating p = Perfect \<longleftrightarrow> 0.95 \<le> p \<and> p \<le> 1.0) \<and>
   (getHitRating p = Good \<longleftrightarrow> 0.85 \<le> p \<and> p < 0.95) \<and>
   (getHitRating p = Miss \<longleftrightarrow> \<not> (0.95 \<le> p \<and> p \<le> 1.0) \<and> \<not> (0.85 \<le> p \<and> p < 0.95)) \<and>
   getHitRating 0.95 = Perfect \<and>
   getHitRating 0.94999 = Good \<and>
   getHitRating 0.849999 = Miss \<and>
   getHitRating 1.0 = Perfect \<and>
   getHitRating 1.0001 = Miss"
  by (simp add: getHitRating_def PERFECT_START_def PERFECT_END_def GOOD_START_def)

text \<open>
  C9.  The combo multiplier follows the tier table (4 from 50, 3 from 25, 2 from 10,
  otherwise 1), it never decreases when the combo grows, and it takes the values
  1, 2, 3, 4 at the combos 9, 10, 49, 50.
\<close>

theorem getComboMultiplier_step_monotone:
  assumes "a \<le> b"
  shows "getComboMultiplier a \<le> getComboMultiplier b \<and>
         getComboMultiplier c =
           (if c \<ge> 50 then 4 else if c \<ge> 25 then 3 else if c \<ge> 10 then 2 else 1) \<and>
         getComboMultiplier 9 = 1 \<and> getComboMultiplier 10 = 2 \<and>
         getComboMultiplier 49 = 3 \<and> getComboMultiplier 50 = 4"
  using assms by (simp add: getComboMultiplier_tiers)

theorem getComboMultiplier_step_monotone_witness:
  "(24::int) \<le> 25 \<and> getComboMultiplier 24 \<le> getComboMultiplier 25 \<and>
   getComboMultiplier 24 = 2 \<and> getComboMultiplier 25 = 3 \<and> getComboMultiplier 7 = 1"
  using getComboMultiplier_step_monotone [of 24 25 7]
        getComboMultiplier_step_monotone [of 24 25 24]
        getComboMultiplier_step_monotone [of 24 25 25]
  by simp

section \<open>Gesture matching\<close>

lemma sort_key_head_min:
  assumes "sort_key f xs = y # ys"
  shows "y \<in> set xs \<and> (\<forall>x\<in>set xs. f y \<le> f x)"
proof -
  have s: "sorted (map f (y # ys))" using assms sorted_sort_key [of f xs] by simp
  have m: "set (y # ys) = set xs" using assms set_sort [of f xs] by simp
  from m have "y \<in> set xs" by auto
  moreover have "\<forall>x\<in>set xs. f y \<le> f x"
  proof
    fix x assume "x \<in> set xs"
    with m have "x = y \<or> x \<in> set ys" by auto
    with s show "f y \<le> f x" by auto
  qed
  ultimately show ?thesis by simp
qed

lemma map_id_update:
  assumes "distinct (map k xs)" and "i < length xs"
  shows "map (\<lambda>a. if k a = k (xs ! i) then g a else a) xs = xs[i := g (xs ! i)]"
proof (rule nth_equalityI)
  show "length (map (\<lambda>a. if k a = k (xs ! i) then g a else a) xs) = length (xs[i := g (xs ! i)])"
    by simp
next
  fix j assume "j < length (map (\<lambda>a. if k a = k (xs ! i) then g a else a) xs)"
  then have j: "j < length xs" by simp
  have "k (xs ! j) = k (xs ! i) \<longleftrightarrow> j = i"
    using assms j nth_eq_iff_index_eq [of "map k xs" j i] by auto
  then show "map (\<lambda>a. if k a = k (xs ! i) then g a else a) xs ! j = xs[i := g (xs ! i)] ! j"
    using j assms(2) by (cases "j = i") auto
qed

lemma hitCandidate_filter:
  "(lane a = l \<and> \<not> hit a \<and> \<not> missed a \<and> isInHitZone (position a)) = hitCandidate l a"
  by (auto simp: hitCandidate_def isInHitZone_def GOOD_START_def PERFECT_END_def)

lemma hitCandidate_rating: "hitCandidate l a \<Longrightarrow> getHitRating (position a) \<noteq> Miss"
  by (auto simp: hitCandidate_def getHitRating_def GOOD_START_def PERFECT_END_def PERFECT_START_def)

lemma processGesture_no_candidate:
  assumes "\<forall>a\<in>set (arrows (gameStateRef e)). \<not> hitCandidate l a"
    and "GESTURE_TO_LANE (gesture_type g) = Some l"
  shows "processGesture g e = (noHit, e)"
proof -
  have "filter (hitCandidate l) (arrows (gameStateRef e)) = []"
    using assms(1) by (simp add: filter_empty_conv)
  then show ?thesis
    using assms(2) by (simp add: processGesture_def Let_def hitCandidate_filter)
qed

text \<open>
  What a hitting gesture does: the arrow it returns is a candidate of the ref's arrows of
  least distance to 0.95, and the arrows of the state that carry its id are marked.
\<close>

lemma processGesture_candidate:
  assumes pl: "status (gameStateRef e) = Playing"
    and la: "GESTURE_TO_LANE (gesture_type g) = Some l"
    and ex: "\<exists>a\<in>set (arrows (gameStateRef e)). hitCandidate l a"
  shows "\<exists>h\<in>set (arrows (gameStateRef e)).
           hitCandidate l h \<and>
           (\<forall>c\<in>set (arrows (gameStateRef e)). hitCandidate l c \<longrightarrow>
              \<bar>position h - 0.95\<bar> \<le> \<bar>position c - 0.95\<bar>) \<and>
           result_hit (fst (processGesture g e)) \<and>
           result_arrow (fst (processGesture g e)) = Some h \<and>
           combo (gameState (snd (processGesture g e))) = combo (gameStateRef e) + 1 \<and>
           arrows (gameState (snd (processGesture g e))) =
             map (\<lambda>arrow. if arrow_id arrow = arrow_id h
                           then arrow\<lparr>hit := True, hitRating := Some (getHitRating (position h))\<rparr>
                           else arrow)
               (arrows (gameState e))"
proof -
  let ?as = "arrows (gameStateRef e)"
  let ?f = "\<lambda>a. \<bar>position a - PERFECT_START\<bar>"
  let ?c = "filter (hitCandidate l) ?as"
  from ex have ne: "?c \<noteq> []" by (simp add: filter_empty_conv)
  then have "sort_key ?f ?c \<noteq> []" by (metis length_0_conv length_sort)
  then obtain h hs where sk: "sort_key ?f ?c = h # hs" by (cases "sort_key ?f ?c") auto
  from sort_key_head_min [OF sk] have hc: "h \<in> set ?c" and hm: "\<forall>x\<in>set ?c. ?f h \<le> ?f x"
    by auto
  from hc have hin: "h \<in> set ?as" and hcand: "hitCandidate l h" by auto
  have rt: "getHitRating (position h) \<noteq> Miss" using hcand by (rule hitCandidate_rating)
  have r1: "result_hit (fst (processGesture g e))"
    and r2: "result_arrow (fst (processGesture g e)) = Some h"
    and r3: "arrows (gameState (snd (processGesture g e))) =
      map (\<lambda>arrow. if arrow_id arrow = arrow_id h
                    then arrow\<lparr>hit := True, hitRating := Some (getHitRating (position h))\<rparr>
                    else arrow) (arrows (gameState e))"
    and r4: "combo (gameState (snd (processGesture g e))) = combo (gameStateRef e) + 1"
    using pl la sk rt by (simp_all add: processGesture_def Let_def hitCandidate_filter)
  have mn: "\<forall>c\<in>set ?as. hitCandidate l c \<longrightarrow> \<bar>position h - 0.95\<bar> \<le> \<bar>position c - 0.95\<bar>"
    using hm by (simp add: PERFECT_START_def)
  show ?thesis
    using hin hcand mn r1 r2 r3 r4 by blast
qed

text \<open>
  On a session that has been rendered since its last update and whose arrow ids are
  unique, a gesture processed while playing returns the no-hit result and leaves the
  engine unchanged when the lane has no candidate, and otherwise marks exactly one
  arrow, a candidate of least distance to 0.95, leaving every other arrow as it was.
\<close>

lemma processGesture_rendered:
  assumes "rendered e"
    and "status (gameState e) = Playing"
    and "distinct (map arrow_id (arrows (gameState e)))"
    and "GESTURE_TO_LANE (gesture_type g) = Some l"
  shows "((\<forall>a\<in>set (arrows (gameState e)). \<not> hitCandidate l a) \<longrightarrow>
            processGesture g e = (noHit, e)) \<and>
         ((\<exists>a\<in>set (arrows (gameState e)). hitCandidate l a) \<longrightarrow>
            (\<exists>i<length (arrows (gameState e)).
               hitCandidate l (arrows (gameState e) ! i) \<and>
               (\<forall>c\<in>set (arrows (gameState e)). hitCandidate l c \<longrightarrow>
                  \<bar>position (arrows (gameState e) ! i) - 0.95\<bar> \<le> \<bar>position c - 0.95\<bar>) \<and>
               result_hit (fst (processGesture g e)) \<and>
               result_arrow (fst (processGesture g e)) = Some (arrows (gameState e) ! i) \<and>
               combo (gameState (snd (processGesture g e))) = combo (gameState e) + 1 \<and>
               arrows (gameState (snd (processGesture g e))) =
                 (arrows (gameState e))
                   [i := (arrows (gameState e) ! i)
                           \<lparr>hit := True,
                            hitRating :=
                              Some (getHitRating (position (arrows (gameState e) ! i)))\<rparr>]))"
proof (intro conjI impI)
  from assms(1) have rf: "gameStateRef e = gameState e" by (simp add: rendered_def)
  {
    assume "\<forall>a\<in>set (arrows (gameState e)). \<not> hitCandidate l a"
    then show "processGesture g e = (noHit, e)"
      using processGesture_no_candidate [of e l g] assms(4) rf by simp
  next
    let ?as = "arrows (gameState e)"
    assume "\<exists>a\<in>set ?as. hitCandidate l a"
    with processGesture_candidate [of e g l] assms(2,4) rf
    obtain h where h: "h \<in> set ?as" "hitCandidate l h"
      "\<forall>c\<in>set ?as. hitCandidate l c \<longrightarrow> \<bar>position h - 0.95\<bar> \<le> \<bar>position c - 0.95\<bar>"
      "result_hit (fst (processGesture g e))"
      "result_arrow (fst (processGesture g e)) = Some h"
      "combo (gameState (snd (processGesture g e))) = combo (gameState e) + 1"
      "arrows (gameState (snd (processGesture g e))) =
         map (\<lambda>arrow. if arrow_id arrow = arrow_id h
                       then arrow\<lparr>hit := True, hitRating := Some (getHitRating (position h))\<rparr>
                       else arrow) ?as"
      by auto
    from h(1) obtain i where i: "i < length ?as" "?as ! i = h" by (auto simp: in_set_conv_nth)
    have upd: "map (\<lambda>arrow. if arrow_id arrow = arrow_id h
                 then arrow\<lparr>hit := True, hitRating := Some (getHitRating (position h))\<rparr> else arrow) ?as
        = ?as[i := h\<lparr>hit := True, hitRating := Some (getHitRating (position h))\<rparr>]"
      using map_id_update [OF assms(3) i(1),
          of "\<lambda>a. a\<lparr>hit := True, hitRating := Some (getHitRating (position h))\<rparr>"] i(2)
      by simp
    show "\<exists>i<length ?as.
               hitCandidate l (?as ! i) \<and>
               (\<forall>c\<in>set ?as. hitCandidate l c \<longrightarrow>
                  \<bar>position (?as ! i) - 0.95\<bar> \<le> \<bar>position c - 0.95\<bar>) \<and>
               result_hit (fst (processGesture g e)) \<and>
               result_arrow (fst (processGesture g e)) = Some (?as ! i) \<and>
               combo (gameState (snd (processGesture g e))) = combo (gameState e) + 1 \<and>
               arrows (gameState (snd (processGesture g e))) =
                 ?as[i := (?as ! i)\<lparr>hit := True,
                            hitRating := Some (getHitRating (position (?as ! i)))\<rparr>]"
      using i h(2-6) h(7) [unfolded upd] by (intro exI [of _ i]) simp
  }
qed

subsection \<open>Two gestures between two renders\<close>




section \<open>Frames\<close>

lemma checkMissedArrows_arrows:
  "fst (checkMissedArrows as) =
     map (\<lambda>a. if newlyMissed a then a\<lparr>missed := True, hitRating := Some Miss\<rparr> else a) as"
  by (induction as)
     (auto simp: newlyMissed_def hasMissedHitZone_def PERFECT_END_def Let_def split: prod.splits)

lemma checkMissedArrows_count:
  "fst (snd (checkMissedArrows as)) = int (length (filter newlyMissed as))"
  by (induction as)
     (auto simp: newlyMissed_def hasMissedHitZone_def PERFECT_END_def Let_def split: prod.splits)

lemma checkMissedArrows_missed:
  "snd (snd (checkMissedArrows as)) =
     map (\<lambda>a. a\<lparr>missed := True, hitRating := Some Miss\<rparr>) (filter newlyMissed as)"
  by (induction as)
     (auto simp: newlyMissed_def hasMissedHitZone_def PERFECT_END_def Let_def split: prod.splits)

lemma spawnArrows_frame_fields:
  "fst (spawnArrows env t d (e\<lparr>lastFrameTimeRef := a, gameDuration := b\<rparr>)) =
   fst (spawnArrows env t d e)"
  "gameState (snd (spawnArrows env t d e)) = gameState e"
  "gameStateRef (snd (spawnArrows env t d e)) = gameStateRef e"
  by (simp_all add: spawnArrows_def Let_def)

lemma spawnArrows_pending:
  "fst (spawnArrows env t d (e\<lparr>pendingFrames := p\<rparr>)) = fst (spawnArrows env t d e)"
  by (simp add: spawnArrows_def Let_def)

lemma requestFrame_fields:
  "gameState (requestFrame e) = gameState e"
  "gameStateRef (requestFrame e) = gameStateRef e"
  "arrowIdCounterRef (requestFrame e) = arrowIdCounterRef e"
  by (simp_all add: requestFrame_def)

text \<open>
  The session after a frame that runs while the ref's status is playing: the arrows are
  the list built from the ref's arrows; the misses and the combo are updated on the
  state.
\<close>

lemma gameLoop_gameState:
  assumes "status (gameStateRef e) = Playing"
  shows "gameState (gameLoop env timestamp e) =
     (gameState e)
       \<lparr>arrows := cleanupArrows (fst (checkMissedArrows (advancedArrows env timestamp e))),
        misses := misses (gameState e) + int (length (filter newlyMissed (advancedArrows env timestamp e))),
        combo := (if filter newlyMissed (advancedArrows env timestamp e) \<noteq> [] then 0
                  else combo (gameState e))\<rparr>"
proof -
  let ?d = "difficulty (gameStateRef e)"
  let ?e1 = "e\<lparr>lastFrameTimeRef := timestamp, gameDuration := timestamp - gameStartTimeRef e\<rparr>"
  obtain u n m where c: "checkMissedArrows (advancedArrows env timestamp e) = (u, n, m)"
    by (cases "checkMissedArrows (advancedArrows env timestamp e)") auto
  have n: "n = int (length (filter newlyMissed (advancedArrows env timestamp e)))"
    using checkMissedArrows_count [of "advancedArrows env timestamp e"] c by simp
  obtain na e2 where s: "spawnArrows env timestamp ?d ?e1 = (na, e2)"
    by (cases "spawnArrows env timestamp ?d ?e1") auto
  have na: "na = fst (spawnArrows env timestamp ?d e)"
  proof -
    have "fst (spawnArrows env timestamp ?d ?e1) = na" using s by simp
    then show ?thesis by (simp add: spawnArrows_frame_fields(1))
  qed
  have e2: "gameState e2 = gameState e"
  proof -
    have "gameState (snd (spawnArrows env timestamp ?d ?e1)) = gameState e2" using s by simp
    then show ?thesis by (simp add: spawnArrows_frame_fields(2))
  qed
  have adv: "updateArrowPositions (arrows (gameStateRef e) @ na) timestamp ?d
     = advancedArrows env timestamp e"
    by (simp add: advancedArrows_def na)
  show ?thesis
    using assms by (simp add: gameLoop_def Let_def s adv c e2 n requestFrame_fields)
qed

lemma gameLoop_not_playing: "status (gameStateRef e) \<noteq> Playing \<Longrightarrow> gameLoop env timestamp e = e"
  by (simp add: gameLoop_def)

lemma gameLoop_gameStateRef: "gameStateRef (gameLoop env timestamp e) = gameStateRef e"
proof (cases "status (gameStateRef e) = Playing")
  case False
  then show ?thesis by (simp add: gameLoop_not_playing)
next
  case True
  then show ?thesis
    by (simp add: gameLoop_def Let_def requestFrame_fields spawnArrows_def split: prod.splits)
qed

text \<open>
  A frame on a rendered session keeps every resolved arrow of position at most 1.5, as
  it is.
\<close>

lemma resolved_survives_frame:
  assumes "rendered e" "a \<in> set (arrows (gameState e))" "hit a \<or> missed a" "position a \<le> 1.5"
  shows "a \<in> set (arrows (gameState (gameLoop env timestamp e)))"
proof (cases "status (gameStateRef e) = Playing")
  case False
  then show ?thesis using assms by (simp add: gameLoop_def)
next
  case True
  from assms(1,2) have "a \<in> set (arrows (gameStateRef e))" by (simp add: rendered_def)
  then have 1: "a \<in> set (advancedArrows env timestamp e)"
    using assms(3) by (force simp: advancedArrows_def updateArrowPositions_def)
  have "\<not> newlyMissed a" using assms(3) by (auto simp: newlyMissed_def)
  with 1 have 2: "a \<in> set (fst (checkMissedArrows (advancedArrows env timestamp e)))"
    by (force simp: checkMissedArrows_arrows)
  with assms(4) have "a \<in> set (cleanupArrows (fst (checkMissedArrows (advancedArrows env timestamp e))))"
    by (simp add: cleanupArrows_def)
  then show ?thesis by (simp add: gameLoop_gameState [OF True])
qed

text \<open>
  The combo across a frame and across a hit: a frame that runs while the ref's status is
  playing and in which an arrow of the frame's list becomes newly missed sets the combo
  to 0 and adds the number of newly missed arrows to the misses; a hit on a rendered
  session sets the combo to its previous value plus 1.
\<close>

lemma combo_rendered:
  "(status (gameStateRef e) = Playing \<and> (\<exists>a\<in>set (advancedArrows env timestamp e). newlyMissed a)
      \<longrightarrow> combo (gameState (gameLoop env timestamp e)) = 0 \<and>
          misses (gameState (gameLoop env timestamp e)) =
            misses (gameState e)
              + int (length (filter newlyMissed (advancedArrows env timestamp e)))) \<and>
   (rendered e \<and> result_hit (fst (processGesture g e))
      \<longrightarrow> combo (gameState (snd (processGesture g e))) = combo (gameState e) + 1)"
proof (intro conjI impI)
  assume a: "status (gameStateRef e) = Playing \<and> (\<exists>a\<in>set (advancedArrows env timestamp e). newlyMissed a)"
  then have ne: "filter newlyMissed (advancedArrows env timestamp e) \<noteq> []"
    by (simp add: filter_empty_conv)
  from a have pl: "status (gameStateRef e) = Playing" by simp
  show "combo (gameState (gameLoop env timestamp e)) = 0"
    using ne by (simp add: gameLoop_gameState [OF pl])
  show "misses (gameState (gameLoop env timestamp e)) =
            misses (gameState e)
              + int (length (filter newlyMissed (advancedArrows env timestamp e)))"
    by (simp add: gameLoop_gameState [OF pl])
next
  assume "rendered e \<and> result_hit (fst (processGesture g e))"
  then show "combo (gameState (snd (processGesture g e))) = combo (gameState e) + 1"
    by (auto simp: rendered_def processGesture_def Let_def noHit_def
             split: if_splits option.splits list.splits)
qed


text \<open>
  A frame and then a gesture with no render between them, on a session with one arrow
  at 0.99: the frame moves the arrow to 1.01, marks it missed and sets the combo to 0;
  the gesture still finds the arrow at 0.99 in the ref, marks the missed arrow hit and
  sets the combo to 8.
\<close>

lemma gesture_after_frame_before_render:
  "arrows (gameState (run [Frame 1 sampleEnv 3030] (samplePlaying [sampleArrow 11 0 0.99]))) =
     [(sampleArrow 11 0 1.01)\<lparr>missed := True, hitRating := Some Miss\<rparr>,
      \<lparr>arrow_id = (1, 0), lane = 1, spawnTime = 3030, position = 0, hit = False,
        missed = False, hitRating = None\<rparr>] \<and>
   combo (gameState (run [Frame 1 sampleEnv 3030] (samplePlaying [sampleArrow 11 0 0.99]))) = 0 \<and>
   arrows (gameState (run [Frame 1 sampleEnv 3030, GestureEv sampleWaveLeft]
                          (samplePlaying [sampleArrow 11 0 0.99]))) =
     [(sampleArrow 11 0 1.01)\<lparr>hit := True, missed := True, hitRating := Some Perfect\<rparr>,
      \<lparr>arrow_id = (1, 0), lane = 1, spawnTime = 3030, position = 0, hit = False,
        missed = False, hitRating = None\<rparr>] \<and>
   combo (gameState (run [Frame 1 sampleEnv 3030, GestureEv sampleWaveLeft]
                         (samplePlaying [sampleArrow 11 0 0.99]))) = 8"
  by (simp add: run_def frameCallback_def gameLoop_def requestFrame_def Let_def spawnArrows_def
        updateArrowPositions_def cleanupArrows_def hasMissedHitZone_def PERFECT_END_def
        processGesture_def sampleWaveLeft_def isInHitZone_def GOOD_START_def PERFECT_START_def
        getHitRating_def calculateHitScore_def getComboMultiplier_tiers PERFECT_POINTS_def
        sampleEnv_def samplePlaying_def sampleArrow_def createEngine_def createInitialGameState_def)

section \<open>Session lifecycle\<close>

lemma sampleOne_fields:
  "rendered sampleOne" "status (gameState sampleOne) = Playing"
  "status (gameStateRef sampleOne) = Playing"
  by (simp_all add: rendered_def sampleOne_def samplePlaying_def)

text \<open>
  C4.  On a session that has been rendered since its last update, \<open>pause\<close> called when
  the status is not playing and \<open>resume\<close> called when the status is not paused leave
  the engine unchanged: no status transition, no statistics and no notification.
  \<open>end\<close> called during the countdown is not a no-op: it clears the countdown interval
  that \<open>countdownIntervalRef\<close> holds, computes the statistics, sets the status to ended
  and notifies the collaborator once.
\<close>

theorem lifecycle_guards:
  "(rendered e \<and> status (gameState e) \<noteq> Playing \<longrightarrow> pause e = e) \<and>
   (rendered e \<and> status (gameState e) \<noteq> Paused \<longrightarrow> resume now e = e) \<and>
   (status (gameState e) = Countdown \<longrightarrow>
      status (gameState (endGame e)) = Ended \<and>
      countdownIntervalRef (endGame e) = None \<and>
      liveIntervals (endGame e) =
        (case countdownIntervalRef e of
           None \<Rightarrow> liveIntervals e
         | Some h \<Rightarrow> filter (\<lambda>(i, c). i \<noteq> h) (liveIntervals e)) \<and>
      countdown (endGame e) = None \<and>
      (\<exists>stats. finalStats (endGame e) = Some stats \<and>
               notifications (endGame e) = notifications e @ [OnGameEnd stats]))"
  by (simp add: rendered_def pause_def resume_def endGame_def cancelFrame_def
        clearCountdownInterval_def Let_def split: option.splits)

theorem lifecycle_guards_witness:
  "rendered (render (pause sampleOne)) \<and>
   status (gameState (render (pause sampleOne))) = Paused \<and>
   pause (render (pause sampleOne)) = render (pause sampleOne) \<and>
   rendered sampleOne \<and> status (gameState sampleOne) = Playing \<and>
   resume 5 sampleOne = sampleOne \<and>
   status (gameState (render (start (createEngine Easy)))) = Countdown \<and>
   countdownIntervalRef (render (start (createEngine Easy))) = Some 1 \<and>
   liveIntervals (render (start (createEngine Easy))) = [(1, 3)] \<and>
   status (gameState (endGame (render (start (createEngine Easy))))) = Ended \<and>
   liveIntervals (endGame (render (start (createEngine Easy)))) = [] \<and>
   (\<exists>stats. finalStats (endGame (render (start (createEngine Easy)))) = Some stats \<and>
            notifications (endGame (render (start (createEngine Easy))))
              = notifications (render (start (createEngine Easy))) @ [OnGameEnd stats])"
proof -
  let ?P = "render (pause sampleOne)"
  let ?C = "render (start (createEngine Easy))"
  have p: "rendered ?P" "status (gameState ?P) = Paused"
    by (simp_all add: rendered_def render_def pause_def cancelFrame_def sampleOne_fields Let_def
          split: option.splits)
  have c: "status (gameState ?C) = Countdown" "countdownIntervalRef ?C = Some 1"
    "liveIntervals ?C = [(1, 3)]"
    by (simp_all add: render_def start_def createEngine_def createInitialGameState_def)
  from lifecycle_guards [of ?P 5] p have 1: "pause ?P = ?P" by simp
  from lifecycle_guards [of sampleOne 5] sampleOne_fields have 2: "resume 5 sampleOne = sampleOne"
    by simp
  from lifecycle_guards [of ?C 5] c
  have 3: "status (gameState (endGame ?C)) = Ended" "liveIntervals (endGame ?C) = []"
    "\<exists>stats. finalStats (endGame ?C) = Some stats \<and>
            notifications (endGame ?C) = notifications ?C @ [OnGameEnd stats]"
    by simp_all
  show ?thesis using p c 1 2 3 sampleOne_fields(1,2) by blast
qed

text \<open>
  The claim as first stated also takes \<open>end\<close> for a no-op whenever the status is neither
  playing nor paused; during the countdown it is not.
\<close>

theorem endGame_during_countdown_counterexample:
  "status (gameState (render (start (createEngine Easy)))) = Countdown \<and>
   status (gameStateRef (render (start (createEngine Easy)))) = Countdown \<and>
   status (gameState (endGame (render (start (createEngine Easy))))) = Ended \<and>
   finalStats (render (start (createEngine Easy))) = None \<and>
   finalStats (endGame (render (start (createEngine Easy)))) \<noteq> None \<and>
   notifications (render (start (createEngine Easy))) = [] \<and>
   notifications (endGame (render (start (createEngine Easy)))) \<noteq> [] \<and>
   endGame (render (start (createEngine Easy))) \<noteq> render (start (createEngine Easy))"
proof -
  let ?C = "render (start (createEngine Easy))"
  have 1: "status (gameState ?C) = Countdown" "status (gameStateRef ?C) = Countdown"
    by (simp_all add: render_def start_def createEngine_def createInitialGameState_def)
  have 2: "status (gameState (endGame ?C)) = Ended"
    by (simp add: endGame_def Let_def)
  have 3: "finalStats ?C = None"
    by (simp add: render_def start_def)
  have 4: "finalStats (endGame ?C) \<noteq> None"
    by (simp add: endGame_def Let_def)
  have 5: "notifications ?C = []"
    by (simp add: render_def start_def createEngine_def)
  have 6: "notifications (endGame ?C) \<noteq> []"
    by (simp add: endGame_def Let_def)
  have 7: "endGame ?C \<noteq> ?C"
    using 3 4 by metis
  show ?thesis using 1 2 3 4 5 6 7 by simp
qed

text \<open>
  The guards read the ref: after \<open>end\<close> on a session in play, a \<open>pause\<close> that comes
  before the next render finds the ref's status still playing and sets the status to
  paused.
\<close>

lemma pause_after_end_before_render:
  "status (gameState (endGame sampleOne)) = Ended \<and>
   status (gameState (pause (endGame sampleOne))) = Paused \<and>
   pause (render (endGame sampleOne)) = render (endGame sampleOne)"
  by (simp add: pause_def endGame_def render_def cancelFrame_def clearCountdownInterval_def
        sampleOne_def samplePlaying_def createEngine_def Let_def)

text \<open>
  A second \<open>start\<close> stores the handle of its interval over the handle of the first,
  which stays live: \<open>end\<close> clears the second interval only, and the first one ends its
  countdown later and sets the status to playing.
\<close>

lemma second_start_leaks_interval:
  "liveIntervals (run [StartEv, StartEv] (createEngine Easy)) = [(1, 3), (2, 3)] \<and>
   countdownIntervalRef (run [StartEv, StartEv] (createEngine Easy)) = Some 2 \<and>
   liveIntervals (run [StartEv, StartEv, EndEv] (createEngine Easy)) = [(1, 3)] \<and>
   status (gameState (run [StartEv, StartEv, EndEv, RenderEv] (createEngine Easy))) = Ended \<and>
   status (gameState (run [StartEv, StartEv, EndEv, RenderEv,
                           CountdownEv 1 1000, CountdownEv 1 2000, CountdownEv 1 3000]
                          (createEngine Easy))) = Playing"
  by (simp add: run_def start_def endGame_def render_def countdownTick_def cancelFrame_def
        clearCountdownInterval_def requestFrame_def createEngine_def createInitialGameState_def
        Let_def)

section \<open>Resolved arrows across events\<close>

lemma sampleOne_gesture:
  "processGesture sampleWaveLeft sampleOne =
     (\<lparr>result_hit = True, result_arrow = Some (sampleArrow 11 0 0.97),
       result_rating = Some Perfect, result_score = Some 100\<rparr>,
      sampleOne
        \<lparr>gameState :=
           (gameState sampleOne)
             \<lparr>arrows := [(sampleArrow 11 0 0.97)\<lparr>hit := True, hitRating := Some Perfect\<rparr>],
              score := 100, combo := 8, maxCombo := 8, perfectHits := 1\<rparr>,
         notifications :=
           [OnComboChange 8 1,
            OnHit \<lparr>result_hit = True, result_arrow = Some (sampleArrow 11 0 0.97),
                   result_rating = Some Perfect, result_score = Some 100\<rparr>]\<rparr>)"
  by (simp add: processGesture_def sampleWaveLeft_def sampleOne_def samplePlaying_def sampleArrow_def
      createEngine_def createInitialGameState_def isInHitZone_def GOOD_START_def PERFECT_END_def
      PERFECT_START_def getHitRating_def calculateHitScore_def getComboMultiplier_tiers
      PERFECT_POINTS_def Let_def)

text \<open>
  C10.  A gesture and then a frame with no render between them, on a rendered session
  with one arrow at position 0.97.  The gesture marks the arrow hit, at position 0.97.
  The frame builds its arrow list from the ref, where the arrow is still unresolved,
  and writes the list over the arrows of the state: the arrow is unresolved again and
  has moved to position 0.98.  With a render between the gesture and the frame the hit
  arrow stays as it is.
\<close>

theorem frame_after_gesture_before_render:
  "rendered sampleOne \<and>
   arrows (gameState (run [GestureEv sampleWaveLeft] sampleOne)) =
     [(sampleArrow 11 0 0.97)\<lparr>hit := True, hitRating := Some Perfect\<rparr>] \<and>
   arrows (gameState (run [GestureEv sampleWaveLeft, Frame 1 sampleEnv 2940] sampleOne)) =
     [sampleArrow 11 0 0.98,
      \<lparr>arrow_id = (1, 0), lane = 1, spawnTime = 2940, position = 0, hit = False,
        missed = False, hitRating = None\<rparr>] \<and>
   arrows (gameState (run [GestureEv sampleWaveLeft, RenderEv, Frame 1 sampleEnv 2940] sampleOne)) =
     [(sampleArrow 11 0 0.97)\<lparr>hit := True, hitRating := Some Perfect\<rparr>,
      \<lparr>arrow_id = (1, 0), lane = 1, spawnTime = 2940, position = 0, hit = False,
        missed = False, hitRating = None\<rparr>]"
proof -
  have 1: "arrows (gameState (run [GestureEv sampleWaveLeft] sampleOne)) =
     [(sampleArrow 11 0 0.97)\<lparr>hit := True, hitRating := Some Perfect\<rparr>]"
    by (simp add: run_def sampleOne_gesture)
  have 2: "arrows (gameState (run [GestureEv sampleWaveLeft, Frame 1 sampleEnv 2940] sampleOne)) =
     [sampleArrow 11 0 0.98,
      \<lparr>arrow_id = (1, 0), lane = 1, spawnTime = 2940, position = 0, hit = False,
        missed = False, hitRating = None\<rparr>]"
    unfolding run_def
    by (simp add: sampleOne_gesture)
       (simp add: frameCallback_def gameLoop_def requestFrame_def Let_def spawnArrows_def
          updateArrowPositions_def cleanupArrows_def hasMissedHitZone_def PERFECT_END_def
          sampleEnv_def sampleOne_def samplePlaying_def sampleArrow_def createEngine_def
          createInitialGameState_def)
  have 3: "arrows (gameState (run [GestureEv sampleWaveLeft, RenderEv, Frame 1 sampleEnv 2940] sampleOne)) =
     [(sampleArrow 11 0 0.97)\<lparr>hit := True, hitRating := Some Perfect\<rparr>,
      \<lparr>arrow_id = (1, 0), lane = 1, spawnTime = 2940, position = 0, hit = False,
        missed = False, hitRating = None\<rparr>]"
    unfolding run_def
    by (simp add: sampleOne_gesture)
       (simp add: render_def frameCallback_def gameLoop_def requestFrame_def Let_def spawnArrows_def
          updateArrowPositions_def cleanupArrows_def hasMissedHitZone_def PERFECT_END_def
          sampleEnv_def sampleOne_def samplePlaying_def sampleArrow_def createEngine_def
          createInitialGameState_def)
  show ?thesis using sampleOne_fields(1) 1 2 3 by blast
qed

subsection \<open>Runs with a render after every event\<close>

text \<open>
  The arrows of the state after a gesture: unchanged, or those carrying the id of a
  candidate of the ref's arrows are marked hit.
\<close>

lemma processGesture_arrows:
  obtains (same) "arrows (gameState (snd (processGesture g e))) = arrows (gameState e)"
  | (marked) h :: Arrow and r where
      "arrows (gameState (snd (processGesture g e))) =
         map (\<lambda>arrow. if arrow_id arrow = arrow_id h
                       then arrow\<lparr>hit := True, hitRating := Some r\<rparr> else arrow)
           (arrows (gameState e))"
      "h \<in> set (arrows (gameStateRef e))" "position h \<le> 1.0"
proof (cases "status (gameStateRef e) = Playing")
  case False
  then show ?thesis using same by (simp add: processGesture_def)
next
  case pl: True
  show ?thesis
  proof (cases "GESTURE_TO_LANE (gesture_type g)")
    case None
    then show ?thesis using same pl by (simp add: processGesture_def)
  next
    case (Some l)
    let ?t = "sort_key (\<lambda>a. \<bar>position a - PERFECT_START\<bar>)
                (filter (\<lambda>arrow. lane arrow = l \<and> \<not> hit arrow \<and> \<not> missed arrow \<and>
                                  isInHitZone (position arrow)) (arrows (gameStateRef e)))"
    show ?thesis
    proof (cases ?t)
      case Nil
      then show ?thesis using same Some pl by (simp add: processGesture_def)
    next
      case (Cons h hs)
      show ?thesis
      proof (cases "getHitRating (position h) = Miss")
        case True
        then show ?thesis using same Some Cons pl by (simp add: processGesture_def)
      next
        case False
        from sort_key_head_min [OF Cons] have "h \<in> set (arrows (gameStateRef e))"
          and "position h \<le> 1.0"
          by (auto simp: isInHitZone_def PERFECT_END_def)
        with False pl Some Cons show ?thesis
          using marked [of h "getHitRating (position h)"]
          by (simp add: processGesture_def Let_def)
      qed
    qed
  qed
qed

lemma processGesture_fields:
  "arrowIdCounterRef (snd (processGesture g e)) = arrowIdCounterRef e"
  "gameStateRef (snd (processGesture g e)) = gameStateRef e"
  by (simp_all add: processGesture_def Let_def split: option.splits list.splits)

lemma frameCallback_cases:
  obtains (idle) "frameCallback h env timestamp e = e"
  | (runs) "frameCallback h env timestamp e =
              gameLoop env timestamp (e\<lparr>pendingFrames := removeAll h (pendingFrames e)\<rparr>)"
  by (cases "h \<in> set (pendingFrames e)") (simp_all add: frameCallback_def)

lemma step_keeps_resolved:
  assumes "rendered e" "\<not> resetsSession ev" "b \<in> set (arrows (gameState e))"
    "hit b \<or> missed b" "position b \<le> 1.5"
  shows "\<exists>c\<in>set (arrows (gameState (step ev e))).
           arrow_id c = arrow_id b \<and> position c = position b \<and> (hit c \<or> missed c)"
proof (cases ev)
  case (Frame h env timestamp)
  show ?thesis
  proof (cases rule: frameCallback_cases [of h env timestamp e])
    case idle
    then show ?thesis using Frame assms by auto
  next
    case runs
    let ?e = "e\<lparr>pendingFrames := removeAll h (pendingFrames e)\<rparr>"
    have "rendered ?e" "b \<in> set (arrows (gameState ?e))"
      using assms(1,3) by (simp_all add: rendered_def)
    from resolved_survives_frame [OF this assms(4,5)]
    show ?thesis using Frame runs assms(4) by auto
  qed
next
  case (GestureEv g)
  show ?thesis
  proof (cases rule: processGesture_arrows [of g e])
    case same
    then show ?thesis using GestureEv assms by auto
  next
    case (marked h r)
    let ?f = "\<lambda>arrow. if arrow_id arrow = arrow_id h
                     then arrow\<lparr>hit := True, hitRating := Some r\<rparr> else arrow"
    have "?f b \<in> set (arrows (gameState (step ev e)))"
      using GestureEv marked(1) assms(3) by simp
    moreover have "arrow_id (?f b) = arrow_id b \<and> position (?f b) = position b \<and>
        (hit (?f b) \<or> missed (?f b))"
      using assms(4) by simp
    ultimately show ?thesis by blast
  qed
next
  case PauseEv
  then show ?thesis using assms
    by (auto simp: pause_def cancelFrame_def Let_def split: option.splits)
next
  case (ResumeEv now)
  then show ?thesis using assms by (auto simp: resume_def requestFrame_def)
next
  case EndEv
  then show ?thesis using assms
    by (auto simp: endGame_def cancelFrame_def clearCountdownInterval_def Let_def
             split: option.splits)
next
  case (SetDifficultyEv d)
  then show ?thesis using assms by (auto simp: setDifficulty_def)
next
  case (CountdownEv h now)
  then show ?thesis using assms
    by (auto simp: countdownTick_def clearCountdownInterval_def requestFrame_def Let_def
             split: option.splits)
next
  case StartEv
  then show ?thesis using assms by simp
next
  case ResetEv
  then show ?thesis using assms by simp
next
  case RenderEv
  then show ?thesis using assms by (auto simp: render_def)
qed

lemma render_fields:
  "rendered (render e)" "gameState (render e) = gameState e"
  "arrowIdCounterRef (render e) = arrowIdCounterRef e"
  by (simp_all add: rendered_def render_def)

lemma run_withRenders_Cons:
  "run (withRenders (ev # evs)) e = run (withRenders evs) (render (step ev e))"
  by (simp add: run_def)

lemma run_keeps_resolved:
  assumes "rendered e" "\<forall>ev\<in>set evs. \<not> resetsSession ev" "b \<in> set (arrows (gameState e))"
    "hit b \<or> missed b" "position b \<le> 1.5"
  shows "\<exists>c\<in>set (arrows (gameState (run (withRenders evs) e))).
           arrow_id c = arrow_id b \<and> position c = position b \<and> (hit c \<or> missed c)"
  using assms
proof (induction evs arbitrary: e b)
  case Nil
  then show ?case by (auto simp: run_def)
next
  case (Cons ev evs)
  from Cons.prems have nr: "\<not> resetsSession ev" and rest: "\<forall>ev\<in>set evs. \<not> resetsSession ev"
    by auto
  from step_keeps_resolved [OF Cons.prems(1) nr Cons.prems(3,4,5)]
  obtain c where c: "c \<in> set (arrows (gameState (render (step ev e))))" "arrow_id c = arrow_id b"
    "position c = position b" "hit c \<or> missed c" by (auto simp: render_fields)
  from c(3) Cons.prems(5) have "position c \<le> 1.5" by simp
  from Cons.IH [OF render_fields(1) rest c(1) c(4) this]
  show ?case unfolding run_withRenders_Cons using c(2,3) by auto
qed

lemma frames_keep_resolved:
  assumes "rendered e" "\<forall>ev\<in>set evs. isFrame ev" "a \<in> set (arrows (gameState e))"
    "hit a \<or> missed a" "position a \<le> 1.5"
  shows "a \<in> set (arrows (gameState (run (withRenders evs) e)))"
  using assms
proof (induction evs arbitrary: e)
  case Nil
  then show ?case by (simp add: run_def)
next
  case (Cons ev evs)
  from Cons.prems(2) obtain h env timestamp where ev: "ev = Frame h env timestamp"
    by (cases ev) auto
  have "a \<in> set (arrows (gameState (step ev e)))"
  proof (cases rule: frameCallback_cases [of h env timestamp e])
    case idle
    then show ?thesis using ev Cons.prems(3) by simp
  next
    case runs
    let ?e = "e\<lparr>pendingFrames := removeAll h (pendingFrames e)\<rparr>"
    have "rendered ?e" "a \<in> set (arrows (gameState ?e))"
      using Cons.prems(1,3) by (simp_all add: rendered_def)
    from resolved_survives_frame [OF this Cons.prems(4,5)]
    show ?thesis using ev runs by simp
  qed
  then have "a \<in> set (arrows (gameState (render (step ev e))))" by (simp add: render_fields)
  from Cons.IH [OF render_fields(1) _ this Cons.prems(4,5)] Cons.prems(2)
  show ?case unfolding run_withRenders_Cons by simp
qed

section \<open>Session invariant\<close>

lemma length_makeArrows: "length (makeArrows env t c ps) = length ps"
  by (induction ps arbitrary: c) auto

lemma makeArrows_ids:
  "a \<in> set (makeArrows env t c ps) \<Longrightarrow>
     c < fst (arrow_id a) \<and> fst (arrow_id a) \<le> c + length ps \<and> \<not> hit a"
proof (induction ps arbitrary: c)
  case Nil
  then show ?case by simp
next
  case (Cons p ps)
  obtain l delay where p: "p = (l, delay)" by (cases p)
  from Cons.prems have "fst (arrow_id a) = Suc c \<and> \<not> hit a \<or> a \<in> set (makeArrows env t (Suc c) ps)"
    unfolding p by auto
  then show ?case
  proof
    assume "fst (arrow_id a) = Suc c \<and> \<not> hit a"
    then show ?thesis by simp
  next
    assume "a \<in> set (makeArrows env t (Suc c) ps)"
    from Cons.IH [OF this] show ?thesis by simp
  qed
qed

lemma makeArrows_distinct: "distinct (map arrow_id (makeArrows env t c ps))"
proof (induction ps arbitrary: c)
  case Nil
  then show ?case by simp
next
  case (Cons p ps)
  obtain l delay where p: "p = (l, delay)" by (cases p)
  have "(Suc c, dateNow env (Suc c)) \<notin> arrow_id ` set (makeArrows env t (Suc c) ps)"
  proof
    assume "(Suc c, dateNow env (Suc c)) \<in> arrow_id ` set (makeArrows env t (Suc c) ps)"
    then obtain a where a: "a \<in> set (makeArrows env t (Suc c) ps)"
      "arrow_id a = (Suc c, dateNow env (Suc c))" by auto
    from makeArrows_ids [OF a(1)] a(2) show False by simp
  qed
  with Cons.IH [of "Suc c"] show ?case unfolding p by simp
qed

lemma spawnArrows_fresh:
  assumes "spawnArrows env t d e = (new, e2)"
  shows "(\<forall>a\<in>set new. arrowIdCounterRef e < fst (arrow_id a) \<and>
            fst (arrow_id a) \<le> arrowIdCounterRef e2 \<and> \<not> hit a) \<and>
         distinct (map arrow_id new) \<and> arrowIdCounterRef e \<le> arrowIdCounterRef e2"
proof (cases "t - lastSpawnTimeRef e < spawnInterval d")
  case True
  then show ?thesis using assms by (auto simp: spawnArrows_def Let_def)
next
  case False
  then have n: "new = makeArrows env t (arrowIdCounterRef e) (pattern env)"
    and c: "arrowIdCounterRef e2 = arrowIdCounterRef e + length new"
    using assms by (auto simp: spawnArrows_def Let_def)
  have len: "length new = length (pattern env)"
    unfolding n by (rule length_makeArrows)
  show ?thesis
    using makeArrows_ids [of _ env t "arrowIdCounterRef e" "pattern env"]
      makeArrows_distinct [of env t "arrowIdCounterRef e" "pattern env"]
    unfolding c len n [symmetric] by auto
qed

lemma checkMissedArrows_ids: "map arrow_id (fst (checkMissedArrows xs)) = map arrow_id xs"
  by (simp add: checkMissedArrows_arrows)

lemma checkMissedArrows_hit:
  "b \<in> set (fst (checkMissedArrows xs)) \<Longrightarrow> hit b \<Longrightarrow> b \<in> set xs"
  by (auto simp: checkMissedArrows_arrows newlyMissed_def split: if_splits)

lemma updateArrowPositions_ids: "map arrow_id (updateArrowPositions xs t d) = map arrow_id xs"
  by (simp add: updateArrowPositions_def Let_def)

lemma updateArrowPositions_hit:
  "b \<in> set (updateArrowPositions xs t d) \<Longrightarrow> hit b \<Longrightarrow> b \<in> set xs"
  by (auto simp: updateArrowPositions_def Let_def split: if_splits)

lemma gameLoop_counter:
  assumes "status (gameStateRef e) = Playing"
  shows "arrowIdCounterRef (gameLoop env timestamp e) =
         arrowIdCounterRef (snd (spawnArrows env timestamp (difficulty (gameStateRef e)) e))"
proof -
  let ?e1 = "e\<lparr>lastFrameTimeRef := timestamp, gameDuration := timestamp - gameStartTimeRef e\<rparr>"
  have "arrowIdCounterRef (gameLoop env timestamp e) =
        arrowIdCounterRef (snd (spawnArrows env timestamp (difficulty (gameStateRef e)) ?e1))"
    using assms by (simp add: gameLoop_def Let_def requestFrame_fields split: prod.splits)
  also have "\<dots> = arrowIdCounterRef (snd (spawnArrows env timestamp (difficulty (gameStateRef e)) e))"
    by (simp add: spawnArrows_def Let_def)
  finally show ?thesis .
qed

lemma gameLoop_sessionInv:
  assumes "rendered e" "sessionInv e"
  shows "sessionInv (gameLoop env timestamp e)"
proof (cases "status (gameStateRef e) = Playing")
  case False
  then show ?thesis using assms by (simp add: gameLoop_def)
next
  case True
  from assms(1) have rf: "gameStateRef e = gameState e" by (simp add: rendered_def)
  let ?d = "difficulty (gameStateRef e)"
  obtain new e2 where sp: "spawnArrows env timestamp ?d e = (new, e2)"
    by (cases "spawnArrows env timestamp ?d e") auto
  note fr = spawnArrows_fresh [OF sp]
  let ?old = "arrows (gameState e)"
  let ?adv = "advancedArrows env timestamp e"
  let ?chk = "fst (checkMissedArrows ?adv)"
  have as: "arrows (gameState (gameLoop env timestamp e)) = cleanupArrows ?chk"
    by (simp add: gameLoop_gameState [OF True])
  have cn: "arrowIdCounterRef (gameLoop env timestamp e) = arrowIdCounterRef e2"
    by (simp add: gameLoop_counter [OF True] sp)
  have adv: "?adv = updateArrowPositions (?old @ new) timestamp ?d"
    unfolding advancedArrows_def sp using rf by simp
  have ids: "map arrow_id ?chk = map arrow_id ?old @ map arrow_id new"
    by (simp add: checkMissedArrows_ids adv updateArrowPositions_ids)
  from assms(2) have d0: "distinct (map arrow_id ?old)"
    and c0: "\<forall>a\<in>set ?old. fst (arrow_id a) \<le> arrowIdCounterRef e"
    and h0: "\<forall>a\<in>set ?old. hit a \<longrightarrow> position a \<le> 1.0"
    by (simp_all add: sessionInv_def)
  have sep: "arrow_id a \<noteq> arrow_id b" if "a \<in> set ?old" "b \<in> set new" for a b
  proof -
    from that c0 have "fst (arrow_id a) \<le> arrowIdCounterRef e" by blast
    moreover from that fr have "arrowIdCounterRef e < fst (arrow_id b)" by blast
    ultimately show ?thesis by auto
  qed
  have disj: "arrow_id ` set ?old \<inter> arrow_id ` set new = {}"
    using sep by blast
  have d1: "distinct (map arrow_id ?chk)"
    unfolding ids using d0 fr disj by simp
  have 1: "distinct (map arrow_id (cleanupArrows ?chk))"
    unfolding cleanupArrows_def using d1 by (rule distinct_map_filter)
  have 2: "\<forall>a\<in>set (cleanupArrows ?chk). fst (arrow_id a) \<le> arrowIdCounterRef e2"
  proof
    fix a assume "a \<in> set (cleanupArrows ?chk)"
    then have "arrow_id a \<in> set (map arrow_id ?chk)" by (auto simp: cleanupArrows_def)
    then have "arrow_id a \<in> arrow_id ` set ?old \<or> arrow_id a \<in> arrow_id ` set new"
      unfolding ids by auto
    then show "fst (arrow_id a) \<le> arrowIdCounterRef e2"
      using c0 fr by force
  qed
  have 3: "\<forall>a\<in>set (cleanupArrows ?chk). hit a \<longrightarrow> position a \<le> 1.0"
  proof (intro ballI impI)
    fix a assume a: "a \<in> set (cleanupArrows ?chk)" and h: "hit a"
    from a have "a \<in> set ?chk" by (simp add: cleanupArrows_def)
    from checkMissedArrows_hit [OF this h] have "a \<in> set ?adv" .
    then have "a \<in> set (?old @ new)"
      unfolding adv using updateArrowPositions_hit h by fastforce
    with h fr have "a \<in> set ?old" by auto
    with h h0 show "position a \<le> 1.0" by blast
  qed
  show ?thesis
    unfolding sessionInv_def as cn using 1 2 3 by blast
qed

lemma processGesture_sessionInv:
  assumes "rendered e" "sessionInv e"
  shows "sessionInv (snd (processGesture g e))"
proof (cases rule: processGesture_arrows [of g e])
  case same
  then show ?thesis using assms(2) by (simp add: sessionInv_def processGesture_fields)
next
  case (marked h r)
  let ?f = "\<lambda>arrow. if arrow_id arrow = arrow_id h
                   then arrow\<lparr>hit := True, hitRating := Some r\<rparr> else arrow"
  let ?old = "arrows (gameState e)"
  from assms(1) marked(2) have hin: "h \<in> set ?old" by (simp add: rendered_def)
  from assms(2) have d0: "distinct (map arrow_id ?old)"
    and c0: "\<forall>a\<in>set ?old. fst (arrow_id a) \<le> arrowIdCounterRef e"
    and h0: "\<forall>a\<in>set ?old. hit a \<longrightarrow> position a \<le> 1.0"
    by (simp_all add: sessionInv_def)
  have ids: "map arrow_id (map ?f ?old) = map arrow_id ?old"
    by (induction ?old) auto
  have 1: "distinct (map arrow_id (map ?f ?old))" unfolding ids by (rule d0)
  have 2: "\<forall>a\<in>set (map ?f ?old). fst (arrow_id a) \<le> arrowIdCounterRef e"
    using c0 by auto
  have 3: "\<forall>a\<in>set (map ?f ?old). hit a \<longrightarrow> position a \<le> 1.0"
  proof (intro ballI impI)
    fix a assume "a \<in> set (map ?f ?old)" and h: "hit a"
    then obtain b where b: "b \<in> set ?old" "a = ?f b" by auto
    show "position a \<le> 1.0"
    proof (cases "arrow_id b = arrow_id h")
      case True
      with d0 b(1) hin have "b = h" by (meson distinct_map inj_onD)
      with b(2) marked(3) show ?thesis by simp
    next
      case False
      with b h h0 show ?thesis by auto
    qed
  qed
  show ?thesis
    unfolding sessionInv_def marked(1) processGesture_fields using 1 2 3 by blast
qed

lemma step_sessionInv:
  assumes "rendered e" "sessionInv e"
  shows "sessionInv (step ev e)"
proof (cases ev)
  case (Frame h env timestamp)
  show ?thesis
  proof (cases rule: frameCallback_cases [of h env timestamp e])
    case idle
    then show ?thesis using Frame assms by simp
  next
    case runs
    let ?e = "e\<lparr>pendingFrames := removeAll h (pendingFrames e)\<rparr>"
    have "rendered ?e" "sessionInv ?e"
      using assms by (simp_all add: rendered_def sessionInv_def)
    from gameLoop_sessionInv [OF this] show ?thesis using Frame runs by simp
  qed
next
  case (GestureEv g)
  then show ?thesis using processGesture_sessionInv [OF assms] by simp
next
  case PauseEv
  then show ?thesis using assms(2)
    by (simp add: sessionInv_def pause_def cancelFrame_def Let_def split: option.splits)
next
  case (ResumeEv now)
  then show ?thesis using assms(2) by (simp add: sessionInv_def resume_def requestFrame_def)
next
  case EndEv
  then show ?thesis using assms(2)
    by (simp add: sessionInv_def endGame_def cancelFrame_def clearCountdownInterval_def Let_def
          split: option.splits)
next
  case (SetDifficultyEv d)
  then show ?thesis using assms(2) by (simp add: sessionInv_def setDifficulty_def)
next
  case (CountdownEv h now)
  then show ?thesis using assms(2)
    by (simp add: sessionInv_def countdownTick_def clearCountdownInterval_def requestFrame_def
          Let_def split: option.splits)
next
  case StartEv
  then show ?thesis by (simp add: sessionInv_def start_def createInitialGameState_def)
next
  case ResetEv
  then show ?thesis
    by (simp add: sessionInv_def reset_def cancelFrame_def clearCountdownInterval_def
          createInitialGameState_def Let_def split: option.splits)
next
  case RenderEv
  then show ?thesis using assms(2) by (simp add: sessionInv_def render_def)
qed

lemma run_sessionInv:
  "rendered e \<Longrightarrow> sessionInv e \<Longrightarrow>
     rendered (run (withRenders evs) e) \<and> sessionInv (run (withRenders evs) e)"
proof (induction evs arbitrary: e)
  case Nil
  then show ?case by (simp add: run_def)
next
  case (Cons ev evs)
  have "sessionInv (render (step ev e))"
    using step_sessionInv [OF Cons.prems, of ev] by (simp add: sessionInv_def render_fields)
  from Cons.IH [OF render_fields(1) this] show ?case unfolding run_withRenders_Cons .
qed

lemma createEngine_sessionInv: "rendered (createEngine d) \<and> sessionInv (createEngine d)"
  by (simp add: rendered_def sessionInv_def createEngine_def createInitialGameState_def)

text \<open>
  In every state reached from the initial engine by events each followed by a render,
  the arrow ids are unique and every hit arrow has a position of at most 1.0.
\<close>

lemma reachable_sessionInv: "sessionInv (run (withRenders evs) (createEngine d))"
  using run_sessionInv [of "createEngine d" evs] createEngine_sessionInv [of d] by simp

section \<open>Gesture classifier\<close>

text \<open>
  C2.  \<open>detectWave\<close> on a strictly monotonic sequence (the wrist rises by 0.10 over
  300 ms and does not come back) with \<open>waveThreshold = 0.05\<close>: the function answers
  detected, because the extremes are 300 ms apart, although the samples do not
  oscillate.  On the sequence that rises by 0.10 over 300 ms and then falls it answers
  detected as well.
\<close>

theorem detectWave_monotonic_rise_detected:
  "sorted_wrt (\<lambda>a b. sample_timestamp a < sample_timestamp b \<and> sample_y a > sample_y b)
     sampleMonotonicRise \<and>
   detectWave sampleMonotonicRise 0.05 = \<lparr>detected = True, wave_confidence = 1\<rparr> \<and>
   detectWave sampleRiseThenFall 0.05 = \<lparr>detected = True, wave_confidence = 1\<rparr>"
  by (simp add: detectWave_def waveScan_def sampleMonotonicRise_def sampleRiseThenFall_def Let_def)

text \<open>
  Every strictly monotonic sequence of three samples whose amplitude reaches the
  threshold and which lasts more than 50 ms is detected as a wave.
\<close>

lemma detectWave_monotonic_three:
  assumes "y0 > y1" "y1 > y2" "t0 < t1" "t1 < t2" "y0 - y2 \<ge> threshold" "t2 - t0 > 50"
  shows "detected (detectWave [\<lparr>sample_y = y0, sample_timestamp = t0\<rparr>,
                               \<lparr>sample_y = y1, sample_timestamp = t1\<rparr>,
                               \<lparr>sample_y = y2, sample_timestamp = t2\<rparr>] threshold)"
  using assms by (simp add: detectWave_def waveScan_def Let_def)

subsection \<open>Evaluation on sample frames\<close>

lemma sample_cal: "hipCenterY sampleCalibration = 0.5"
  by (simp add: sampleCalibration_def calculateCalibration_def averageLandmark_def Let_def)

lemma sample_jump_lms:
  "landmarkAt sampleJumpLandmarks LEFT_WRIST = Some hiddenLandmark"
  "landmarkAt sampleJumpLandmarks RIGHT_WRIST = Some hiddenLandmark"
  "landmarkAt sampleJumpLandmarks LEFT_HIP = Some \<lparr>lm_x = 0.4, lm_y = 0.3, lm_z = 0, visibility = Some 0.9\<rparr>"
  "landmarkAt sampleJumpLandmarks RIGHT_HIP = Some \<lparr>lm_x = 0.6, lm_y = 0.3, lm_z = 0, visibility = Some 0.9\<rparr>"
  "landmarkAt sampleJumpLandmarks LEFT_ANKLE = Some hiddenLandmark"
  "landmarkAt sampleJumpLandmarks RIGHT_ANKLE = Some hiddenLandmark"
  by (simp_all add: landmarkAt_def sampleJumpLandmarks_def LEFT_WRIST_def RIGHT_WRIST_def
        LEFT_HIP_def RIGHT_HIP_def LEFT_ANKLE_def RIGHT_ANKLE_def)

lemma sample_jump_frame:
  "processGestureFrame sampleJumpLandmarks sampleCalibration createInitialGestureState 1000
     DEFAULT_GESTURE_OPTIONS now =
   \<lparr>gesture = Some Jump,
    newState = createInitialGestureState\<lparr>jump := \<lparr>isInJump = True, jump_lastGestureTime = now\<rparr>\<rparr>,
    frame_confidence = 1\<rparr>"
  by (simp add: processGestureFrame_def leftWristBlock_def rightWristBlock_def jumpBlock_def
        detectJump_def sample_jump_lms sample_cal hiddenLandmark_def visibilityOr_def
        DEFAULT_GESTURE_OPTIONS_def createInitialGestureState_def Let_def)

lemma sample_wrist_lms:
  "landmarkAt sampleWristLandmarks LEFT_WRIST =
     Some \<lparr>lm_x = 0.3, lm_y = 0.5, lm_z = 0, visibility = Some 0.9\<rparr>"
  "landmarkAt sampleWristLandmarks RIGHT_WRIST =
     Some \<lparr>lm_x = 0.7, lm_y = 0.5, lm_z = 0, visibility = Some 0.9\<rparr>"
  "landmarkAt sampleWristLandmarks LEFT_HIP = Some hiddenLandmark"
  "landmarkAt sampleWristLandmarks RIGHT_HIP = Some hiddenLandmark"
  "landmarkAt sampleWristLandmarks LEFT_ANKLE = Some hiddenLandmark"
  "landmarkAt sampleWristLandmarks RIGHT_ANKLE = Some hiddenLandmark"
  by (simp_all add: landmarkAt_def sampleWristLandmarks_def LEFT_WRIST_def RIGHT_WRIST_def
        LEFT_HIP_def RIGHT_HIP_def LEFT_ANKLE_def RIGHT_ANKLE_def)

lemma sample_hidden_lms:
  "landmarkAt sampleHiddenLandmarks LEFT_WRIST = Some hiddenLandmark"
  "landmarkAt sampleHiddenLandmarks RIGHT_WRIST = Some hiddenLandmark"
  "landmarkAt sampleHiddenLandmarks LEFT_HIP = Some hiddenLandmark"
  "landmarkAt sampleHiddenLandmarks RIGHT_HIP = Some hiddenLandmark"
  "landmarkAt sampleHiddenLandmarks LEFT_ANKLE = Some hiddenLandmark"
  "landmarkAt sampleHiddenLandmarks RIGHT_ANKLE = Some hiddenLandmark"
  by (simp_all add: landmarkAt_def sampleHiddenLandmarks_def LEFT_WRIST_def RIGHT_WRIST_def
        LEFT_HIP_def RIGHT_HIP_def LEFT_ANKLE_def RIGHT_ANKLE_def)

lemma sampleTrackedState_eq:
  "sampleTrackedState =
     \<lparr>leftWrist = \<lparr>samples = [\<lparr>sample_y = 0.5, sample_timestamp = 0\<rparr>], lastGestureTime = 0\<rparr>,
      rightWrist = \<lparr>samples = [\<lparr>sample_y = 0.5, sample_timestamp = 0\<rparr>], lastGestureTime = 0\<rparr>,
      jump = \<lparr>isInJump = False, jump_lastGestureTime = 0\<rparr>\<rparr>"
  by (simp add: sampleTrackedState_def processGestureFrame_def leftWristBlock_def rightWristBlock_def
        jumpBlock_def detectJump_def sample_wrist_lms hiddenLandmark_def visibilityOr_def
        addPositionSample_def DEFAULT_GESTURE_OPTIONS_def createInitialGestureState_def Let_def)

lemma sample_hidden_frame:
  "processGestureFrame sampleHiddenLandmarks sampleCalibration sampleTrackedState 1000
     DEFAULT_GESTURE_OPTIONS now =
   \<lparr>gesture = None, newState = sampleTrackedState, frame_confidence = 0\<rparr>"
  by (simp add: sampleTrackedState_eq processGestureFrame_def leftWristBlock_def rightWristBlock_def
        jumpBlock_def detectJump_def sample_hidden_lms hiddenLandmark_def visibilityOr_def
        DEFAULT_GESTURE_OPTIONS_def Let_def)

lemma sample_wrist_frame:
  "processGestureFrame sampleWristLandmarks sampleCalibration sampleTrackedState 1000
     DEFAULT_GESTURE_OPTIONS now =
   \<lparr>gesture = None,
    newState =
      \<lparr>leftWrist = \<lparr>samples = [\<lparr>sample_y = 0.5, sample_timestamp = 1000\<rparr>], lastGestureTime = 0\<rparr>,
       rightWrist = \<lparr>samples = [\<lparr>sample_y = 0.5, sample_timestamp = 1000\<rparr>], lastGestureTime = 0\<rparr>,
       jump = \<lparr>isInJump = False, jump_lastGestureTime = 0\<rparr>\<rparr>,
    frame_confidence = 0\<rparr>"
  by (simp add: sampleTrackedState_eq processGestureFrame_def leftWristBlock_def rightWristBlock_def
        jumpBlock_def detectJump_def detectWave_def noWave_def sample_wrist_lms hiddenLandmark_def
        visibilityOr_def addPositionSample_def DEFAULT_GESTURE_OPTIONS_def Let_def)

text \<open>
  C3.  \<open>processGestureFrame\<close> on one and the same landmarks, calibration, tracking
  state, timestamp and options, with two readings of the wall clock: a jump is detected,
  and the new state holds the clock reading as the jump's \<open>lastGestureTime\<close>, so the two
  results differ.
\<close>

theorem processGestureFrame_reads_clock:
  "jump_lastGestureTime (jump (newState (processGestureFrame sampleJumpLandmarks sampleCalibration
       createInitialGestureState 1000 DEFAULT_GESTURE_OPTIONS 1))) = 1 \<and>
   jump_lastGestureTime (jump (newState (processGestureFrame sampleJumpLandmarks sampleCalibration
       createInitialGestureState 1000 DEFAULT_GESTURE_OPTIONS 2))) = 2 \<and>
   processGestureFrame sampleJumpLandmarks sampleCalibration
       createInitialGestureState 1000 DEFAULT_GESTURE_OPTIONS 1 \<noteq>
   processGestureFrame sampleJumpLandmarks sampleCalibration
       createInitialGestureState 1000 DEFAULT_GESTURE_OPTIONS 2"
proof -
  let ?r = "processGestureFrame sampleJumpLandmarks sampleCalibration
       createInitialGestureState 1000 DEFAULT_GESTURE_OPTIONS"
  have a: "jump_lastGestureTime (jump (newState (?r 1))) = 1"
    and b: "jump_lastGestureTime (jump (newState (?r 2))) = 2"
    by (simp_all add: sample_jump_frame)
  have c: "?r 1 \<noteq> ?r 2"
  proof
    assume "?r 1 = ?r 2"
    with a b show False by simp
  qed
  show ?thesis using a b c by blast
qed

text \<open>
  The clock reading enters the result of a frame only as the \<open>lastGestureTime\<close> of a
  detected jump: the gesture, the confidence, both wrist states and \<open>isInJump\<close> do not
  depend on it, and a frame that does not emit a jump does not depend on it at all.
\<close>

lemma detectJump_clock:
  "jump_detected (detectJump lms cal st th now1) = jump_detected (detectJump lms cal st th now2) \<and>
   jump_confidence (detectJump lms cal st th now1) = jump_confidence (detectJump lms cal st th now2) \<and>
   isInJump (jump_newState (detectJump lms cal st th now1)) =
     isInJump (jump_newState (detectJump lms cal st th now2)) \<and>
   (\<not> jump_detected (detectJump lms cal st th now1) \<longrightarrow>
      detectJump lms cal st th now1 = detectJump lms cal st th now2)"
  by (simp add: detectJump_def Let_def split: option.splits)

lemma jumpBlock_clock:
  assumes "jumpBlock lms cal state t opts now1 v = (n1, g1, c1)"
    and "jumpBlock lms cal state t opts now2 v = (n2, g2, c2)"
  shows "g1 = g2 \<and> c1 = c2 \<and> leftWrist n1 = leftWrist n2 \<and> rightWrist n1 = rightWrist n2 \<and>
         isInJump (jump n1) = isInJump (jump n2) \<and> (g1 \<noteq> Some Jump \<longrightarrow> n1 = n2)"
proof -
  obtain ns g c where v: "v = (ns, g, c)" by (cases v)
  note dj = detectJump_clock [of lms cal "jump state" "jumpThreshold opts" now1 now2]
  show ?thesis
  proof (cases "g = None")
    case False
    then show ?thesis using assms by (auto simp: jumpBlock_def v)
  next
    case True
    show ?thesis
    proof (cases "t - jump_lastGestureTime (jump state) > debounceTime opts")
      case d: True
      show ?thesis
      proof (cases "jump_detected (detectJump lms cal (jump state) (jumpThreshold opts) now1)")
        case True
        with dj have "jump_detected (detectJump lms cal (jump state) (jumpThreshold opts) now2)"
          by simp
        with True d \<open>g = None\<close> assms dj show ?thesis
          by (auto simp: jumpBlock_def v Let_def)
      next
        case False
        with dj have e: "detectJump lms cal (jump state) (jumpThreshold opts) now1 =
                         detectJump lms cal (jump state) (jumpThreshold opts) now2" by simp
        with False d \<open>g = None\<close> assms show ?thesis
          by (auto simp: jumpBlock_def v Let_def)
      qed
    next
      case False
      have "(jump_newState (detectJump lms cal (jump state) (jumpThreshold opts) now1))
               \<lparr>jump_lastGestureTime := x\<rparr> =
            (jump_newState (detectJump lms cal (jump state) (jumpThreshold opts) now2))
               \<lparr>jump_lastGestureTime := x\<rparr>" for x
        by (simp add: detectJump_def Let_def split: option.splits)
      with False \<open>g = None\<close> assms show ?thesis
        by (auto simp: jumpBlock_def v Let_def)
    qed
  qed
qed

lemma processGestureFrame_clock:
  "gesture (processGestureFrame lms cal state t opts now1) =
     gesture (processGestureFrame lms cal state t opts now2) \<and>
   frame_confidence (processGestureFrame lms cal state t opts now1) =
     frame_confidence (processGestureFrame lms cal state t opts now2) \<and>
   leftWrist (newState (processGestureFrame lms cal state t opts now1)) =
     leftWrist (newState (processGestureFrame lms cal state t opts now2)) \<and>
   rightWrist (newState (processGestureFrame lms cal state t opts now1)) =
     rightWrist (newState (processGestureFrame lms cal state t opts now2)) \<and>
   isInJump (jump (newState (processGestureFrame lms cal state t opts now1))) =
     isInJump (jump (newState (processGestureFrame lms cal state t opts now2))) \<and>
   (gesture (processGestureFrame lms cal state t opts now1) \<noteq> Some Jump \<longrightarrow>
      processGestureFrame lms cal state t opts now1 = processGestureFrame lms cal state t opts now2)"
proof -
  let ?v = "rightWristBlock lms state t opts (leftWristBlock lms state t opts (state, None, 0))"
  obtain n1 g1 c1 where b1: "jumpBlock lms cal state t opts now1 ?v = (n1, g1, c1)"
    by (cases "jumpBlock lms cal state t opts now1 ?v") auto
  obtain n2 g2 c2 where b2: "jumpBlock lms cal state t opts now2 ?v = (n2, g2, c2)"
    by (cases "jumpBlock lms cal state t opts now2 ?v") auto
  from jumpBlock_clock [OF b1 b2] show ?thesis
    by (simp add: processGestureFrame_def b1 b2)
qed

subsection \<open>Wrist windows\<close>

lemma addPositionSample_window:
  assumes "0 \<le> w" "s \<in> set (samples (addPositionSample st y t w))"
  shows "t - w \<le> sample_timestamp s"
  using assms by (auto simp: addPositionSample_def Let_def)

lemma addPositionSample_upper:
  assumes "\<forall>s\<in>set (samples st). sample_timestamp s \<le> t"
    "s \<in> set (samples (addPositionSample st y t w))"
  shows "sample_timestamp s \<le> t"
  using assms by (auto simp: addPositionSample_def Let_def)

lemma leftWristBlock_result:
  assumes "leftWristBlock lms state t opts (state, None, 0) = (ns, g, c)"
  shows "rightWrist ns = rightWrist state \<and> jump ns = jump state \<and>
         (g = None \<or> g = Some WaveLeft) \<and>
         (if wristVisible lms LEFT_WRIST
          then (g = None \<and> (\<exists>y. leftWrist ns = addPositionSample (leftWrist state) y t (waveTimeWindow opts)))
               \<or> (g = Some WaveLeft \<and> samples (leftWrist ns) = [])
          else g = None \<and> leftWrist ns = leftWrist state)"
  using assms
  by (auto simp: leftWristBlock_def wristVisible_def Let_def split: option.splits if_splits)

lemma rightWristBlock_result:
  assumes "rightWristBlock lms state t opts (ns0, g0, c0) = (ns, g, c)"
    and "rightWrist ns0 = rightWrist state"
  shows "leftWrist ns = leftWrist ns0 \<and> jump ns = jump ns0 \<and>
         (g0 \<noteq> None \<longrightarrow> g = g0 \<and> rightWrist ns = rightWrist state) \<and>
         (g0 = None \<longrightarrow> (g = None \<or> g = Some WaveRight) \<and>
            (if wristVisible lms RIGHT_WRIST
             then (\<exists>y. rightWrist ns = addPositionSample (rightWrist state) y t (waveTimeWindow opts))
                  \<or> samples (rightWrist ns) = []
             else rightWrist ns = rightWrist state))"
  using assms
  by (auto simp: rightWristBlock_def wristVisible_def Let_def split: option.splits if_splits)

lemma jumpBlock_result:
  assumes "jumpBlock lms cal state t opts now (ns0, g0, c0) = (ns, g, c)"
  shows "leftWrist ns = leftWrist ns0 \<and> rightWrist ns = rightWrist ns0 \<and>
         (g0 \<noteq> None \<longrightarrow> g = g0) \<and> (g0 = None \<longrightarrow> g = None \<or> g = Some Jump)"
  using assms
  by (auto simp: jumpBlock_def Let_def split: if_splits)

text \<open>
  C7.  After a call of \<open>processGestureFrame\<close> at timestamp \<open>t\<close> with a non-negative
  \<open>waveTimeWindow\<close>: a wrist window that the call sampled (the left wrist when it is
  visible; the right wrist when it is visible and no left wave fired in the call) holds
  no sample older than \<open>t - waveTimeWindow\<close>; a window that the call did not sample is
  left as it was.  In either case a window whose samples were not later than \<open>t\<close>
  before the call holds no sample later than \<open>t\<close> after it.
\<close>

theorem wrist_window_after_sampling:
  assumes "0 \<le> waveTimeWindow opts"
  shows "(wristVisible lms LEFT_WRIST \<longrightarrow>
            (\<forall>s\<in>set (samples (leftWrist (newState (processGestureFrame lms cal state t opts now)))).
               t - waveTimeWindow opts \<le> sample_timestamp s)) \<and>
         (wristVisible lms RIGHT_WRIST \<and>
          gesture (processGestureFrame lms cal state t opts now) \<noteq> Some WaveLeft \<longrightarrow>
            (\<forall>s\<in>set (samples (rightWrist (newState (processGestureFrame lms cal state t opts now)))).
               t - waveTimeWindow opts \<le> sample_timestamp s)) \<and>
         (\<not> wristVisible lms LEFT_WRIST \<longrightarrow>
            leftWrist (newState (processGestureFrame lms cal state t opts now)) = leftWrist state) \<and>
         (\<not> wristVisible lms RIGHT_WRIST \<or>
          gesture (processGestureFrame lms cal state t opts now) = Some WaveLeft \<longrightarrow>
            rightWrist (newState (processGestureFrame lms cal state t opts now)) = rightWrist state) \<and>
         ((\<forall>s\<in>set (samples (leftWrist state)). sample_timestamp s \<le> t) \<longrightarrow>
            (\<forall>s\<in>set (samples (leftWrist (newState (processGestureFrame lms cal state t opts now)))).
               sample_timestamp s \<le> t)) \<and>
         ((\<forall>s\<in>set (samples (rightWrist state)). sample_timestamp s \<le> t) \<longrightarrow>
            (\<forall>s\<in>set (samples (rightWrist (newState (processGestureFrame lms cal state t opts now)))).
               sample_timestamp s \<le> t))"
proof -
  obtain n1 g1 c1 where b1: "leftWristBlock lms state t opts (state, None, 0) = (n1, g1, c1)"
    by (cases "leftWristBlock lms state t opts (state, None, 0)") auto
  obtain n2 g2 c2 where b2: "rightWristBlock lms state t opts (n1, g1, c1) = (n2, g2, c2)"
    by (cases "rightWristBlock lms state t opts (n1, g1, c1)") auto
  obtain n3 g3 c3 where b3: "jumpBlock lms cal state t opts now (n2, g2, c2) = (n3, g3, c3)"
    by (cases "jumpBlock lms cal state t opts now (n2, g2, c2)") auto
  have r: "processGestureFrame lms cal state t opts now =
           \<lparr>gesture = g3, newState = n3, frame_confidence = c3\<rparr>"
    by (simp add: processGestureFrame_def b1 b2 b3)
  note l = leftWristBlock_result [OF b1]
  from l have rw1: "rightWrist n1 = rightWrist state" by simp
  note rr = rightWristBlock_result [OF b2 rw1]
  note j = jumpBlock_result [OF b3]
  have lw: "leftWrist n3 = leftWrist n1" using rr j by simp
  have rw: "rightWrist n3 = rightWrist n2" using j by simp
  have gl: "g3 = Some WaveLeft \<longleftrightarrow> g1 = Some WaveLeft"
    using l rr j by auto
  have A: "\<forall>s\<in>set (samples (leftWrist n3)). t - waveTimeWindow opts \<le> sample_timestamp s"
    if "wristVisible lms LEFT_WRIST"
    using that l addPositionSample_window [OF assms] unfolding lw by auto
  have B: "\<forall>s\<in>set (samples (rightWrist n3)). t - waveTimeWindow opts \<le> sample_timestamp s"
    if "wristVisible lms RIGHT_WRIST" "g3 \<noteq> Some WaveLeft"
  proof -
    from that(2) gl l have "g1 = None" by auto
    with rr that(1) show ?thesis
      using addPositionSample_window [OF assms] unfolding rw by auto
  qed
  have C: "leftWrist n3 = leftWrist state" if "\<not> wristVisible lms LEFT_WRIST"
    using that l unfolding lw by simp
  have D: "rightWrist n3 = rightWrist state"
    if "\<not> wristVisible lms RIGHT_WRIST \<or> g3 = Some WaveLeft"
    using that l rr gl unfolding rw by (cases "g1 = None") auto
  have E: "\<forall>s\<in>set (samples (leftWrist n3)). sample_timestamp s \<le> t"
    if old: "\<forall>s\<in>set (samples (leftWrist state)). sample_timestamp s \<le> t"
  proof (cases "wristVisible lms LEFT_WRIST")
    case True
    with l consider (add) y where
        "leftWrist n1 = addPositionSample (leftWrist state) y t (waveTimeWindow opts)"
      | (clr) "samples (leftWrist n1) = []"
      by auto
    then show ?thesis
    proof cases
      case add
      then show ?thesis using addPositionSample_upper [OF old] unfolding lw by simp
    next
      case clr
      then show ?thesis unfolding lw by simp
    qed
  next
    case False
    with l old show ?thesis unfolding lw by simp
  qed
  have F: "\<forall>s\<in>set (samples (rightWrist n3)). sample_timestamp s \<le> t"
    if old: "\<forall>s\<in>set (samples (rightWrist state)). sample_timestamp s \<le> t"
  proof (cases "g1 = None \<and> wristVisible lms RIGHT_WRIST")
    case True
    with rr consider (add) y where
        "rightWrist n2 = addPositionSample (rightWrist state) y t (waveTimeWindow opts)"
      | (clr) "samples (rightWrist n2) = []"
      by auto
    then show ?thesis
    proof cases
      case add
      then show ?thesis using addPositionSample_upper [OF old] unfolding rw by simp
    next
      case clr
      then show ?thesis unfolding rw by simp
    qed
  next
    case False
    with rr have "rightWrist n2 = rightWrist state" by (cases "g1 = None") auto
    with old show ?thesis unfolding rw by simp
  qed
  have gn: "gesture (processGestureFrame lms cal state t opts now) = g3"
    "newState (processGestureFrame lms cal state t opts now) = n3"
    by (simp_all add: r)
  show ?thesis unfolding gn using A B C D E F by blast
qed

theorem wrist_window_after_sampling_witness:
  "0 \<le> waveTimeWindow DEFAULT_GESTURE_OPTIONS \<and>
   wristVisible sampleWristLandmarks LEFT_WRIST \<and>
   wristVisible sampleWristLandmarks RIGHT_WRIST \<and>
   gesture (processGestureFrame sampleWristLandmarks sampleCalibration sampleTrackedState 1000
              DEFAULT_GESTURE_OPTIONS 0) \<noteq> Some WaveLeft \<and>
   list_all (\<lambda>s. 1000 - waveTimeWindow DEFAULT_GESTURE_OPTIONS \<le> sample_timestamp s)
     (samples (leftWrist (newState
        (processGestureFrame sampleWristLandmarks sampleCalibration sampleTrackedState 1000
           DEFAULT_GESTURE_OPTIONS 0)))) \<and>
   list_all (\<lambda>s. 1000 - waveTimeWindow DEFAULT_GESTURE_OPTIONS \<le> sample_timestamp s)
     (samples (rightWrist (newState
        (processGestureFrame sampleWristLandmarks sampleCalibration sampleTrackedState 1000
           DEFAULT_GESTURE_OPTIONS 0)))) \<and>
   \<not> wristVisible sampleHiddenLandmarks LEFT_WRIST \<and>
   leftWrist (newState
        (processGestureFrame sampleHiddenLandmarks sampleCalibration sampleTrackedState 1000
           DEFAULT_GESTURE_OPTIONS 0)) = leftWrist sampleTrackedState"
proof -
  have w: "0 \<le> waveTimeWindow DEFAULT_GESTURE_OPTIONS"
    by (simp add: DEFAULT_GESTURE_OPTIONS_def)
  have v: "wristVisible sampleWristLandmarks LEFT_WRIST"
    "wristVisible sampleWristLandmarks RIGHT_WRIST"
    "\<not> wristVisible sampleHiddenLandmarks LEFT_WRIST"
    by (simp_all add: wristVisible_def sample_wrist_lms sample_hidden_lms visibilityOr_def
          hiddenLandmark_def)
  have g: "gesture (processGestureFrame sampleWristLandmarks sampleCalibration sampleTrackedState
              1000 DEFAULT_GESTURE_OPTIONS 0) \<noteq> Some WaveLeft"
    by (simp add: sample_wrist_frame)
  note t1 = wrist_window_after_sampling [OF w, of sampleWristLandmarks sampleCalibration
         sampleTrackedState 1000 0]
  note t2 = wrist_window_after_sampling [OF w, of sampleHiddenLandmarks sampleCalibration
         sampleTrackedState 1000 0]
  from t1 v(1) have a: "\<forall>s\<in>set (samples (leftWrist (newState
        (processGestureFrame sampleWristLandmarks sampleCalibration sampleTrackedState 1000
           DEFAULT_GESTURE_OPTIONS 0)))).
      1000 - waveTimeWindow DEFAULT_GESTURE_OPTIONS \<le> sample_timestamp s"
    by blast
  from t1 v(2) g have b: "\<forall>s\<in>set (samples (rightWrist (newState
        (processGestureFrame sampleWristLandmarks sampleCalibration sampleTrackedState 1000
           DEFAULT_GESTURE_OPTIONS 0)))).
      1000 - waveTimeWindow DEFAULT_GESTURE_OPTIONS \<le> sample_timestamp s"
    by blast
  from t2 v(3) have c: "leftWrist (newState
        (processGestureFrame sampleHiddenLandmarks sampleCalibration sampleTrackedState 1000
           DEFAULT_GESTURE_OPTIONS 0)) = leftWrist sampleTrackedState"
    by blast
  show ?thesis
    unfolding list_all_iff using w v g a b c by blast
qed

text \<open>
  The window of a wrist that is not visible is not pruned: after a frame at timestamp 0
  with the left wrist visible and a frame at timestamp 1000 with the wrist hidden, the
  left window still holds the sample of timestamp 0, older than \<open>1000 - 500\<close>.
\<close>

theorem stale_window_when_wrist_hidden_counterexample:
  "samples (leftWrist (newState
      (processGestureFrame sampleHiddenLandmarks sampleCalibration sampleTrackedState 1000
         DEFAULT_GESTURE_OPTIONS 0)))
     = [\<lparr>sample_y = 0.5, sample_timestamp = 0\<rparr>] \<and>
   (0::real) < 1000 - waveTimeWindow DEFAULT_GESTURE_OPTIONS"
  unfolding sample_hidden_frame
  by (simp add: sampleTrackedState_eq DEFAULT_GESTURE_OPTIONS_def)

section \<open>Calibration\<close>

lemma qualifyingSamples_Cons:
  "qualifyingSamples i (p # ps) =
     (case landmarkAt (landmarks p) i of
        None \<Rightarrow> qualifyingSamples i ps
      | Some lm \<Rightarrow> if visibilityOr 0 lm > 0.5 then lm # qualifyingSamples i ps
                   else qualifyingSamples i ps)"
  by (simp add: qualifyingSamples_def split: option.splits)

lemma qualifyingSamples_Nil: "qualifyingSamples i [] = []"
  by (simp add: qualifyingSamples_def)

lemma fold_averageStep:
  "fold (averageStep i) poses (sx, sy, sz, sv, c) =
     (sx + sum_list (map lm_x (qualifyingSamples i poses)),
      sy + sum_list (map lm_y (qualifyingSamples i poses)),
      sz + sum_list (map lm_z (qualifyingSamples i poses)),
      sv + sum_list (map (visibilityOr 1) (qualifyingSamples i poses)),
      c + length (qualifyingSamples i poses))"
proof (induction poses arbitrary: sx sy sz sv c)
  case Nil
  then show ?case by (simp add: qualifyingSamples_Nil)
next
  case (Cons p ps)
  show ?case
  proof (cases "landmarkAt (landmarks p) i")
    case None
    then have "averageStep i p (sx, sy, sz, sv, c) = (sx, sy, sz, sv, c)"
      by (simp add: averageStep_def)
    then show ?thesis by (simp add: Cons.IH qualifyingSamples_Cons None)
  next
    case (Some lm)
    show ?thesis
    proof (cases "visibilityOr 0 lm > 0.5")
      case True
      then have "averageStep i p (sx, sy, sz, sv, c) =
          (sx + lm_x lm, sy + lm_y lm, sz + lm_z lm, sv + visibilityOr 1 lm, c + 1)"
        by (simp add: averageStep_def Some)
      then show ?thesis using True by (simp add: Cons.IH qualifyingSamples_Cons Some)
    next
      case False
      then have "averageStep i p (sx, sy, sz, sv, c) = (sx, sy, sz, sv, c)"
        by (simp add: averageStep_def Some)
      then show ?thesis using False by (simp add: Cons.IH qualifyingSamples_Cons Some)
    qed
  qed
qed

lemma averageLandmark_refines: "averageLandmark i poses = averageLandmark_spec i poses"
  by (simp add: averageLandmark_def averageLandmark_spec_def fold_averageStep Let_def)

lemma qualifyingSamples_cong:
  assumes "map (\<lambda>p. landmarkAt (landmarks p) i) ps = map (\<lambda>p. landmarkAt (landmarks p) i) qs"
  shows "qualifyingSamples i ps = qualifyingSamples i qs"
proof -
  have "qualifyingSamples i rs =
      filter (\<lambda>lm. visibilityOr 0 lm > 0.5)
        (concat (map (\<lambda>r. case r of None \<Rightarrow> [] | Some lm \<Rightarrow> [lm])
                   (map (\<lambda>p. landmarkAt (landmarks p) i) rs)))" for rs
    by (simp add: qualifyingSamples_def comp_def)
  then show ?thesis by (simp only: assms)
qed

text \<open>
  C8.  The calibration averages each landmark on its own: the average of a landmark is
  a function of the samples of that landmark alone (two capture sequences that agree on
  it give the same average, whatever their other landmarks are); it is the mean of the
  samples of that landmark whose visibility is above 0.5, and the default landmark
  \<open>{x: 0.5, y: 0.5, z: 0, visibility: 0}\<close> when no sample qualifies; each of the seven
  baseline landmarks is such an average, and \<open>hipCenterY\<close> is the mean of the \<open>y\<close>
  of the resulting left and right hips.
\<close>

theorem calibration_averages_per_landmark:
  assumes "map (\<lambda>p. landmarkAt (landmarks p) i) ps = map (\<lambda>p. landmarkAt (landmarks p) i) qs"
  shows "averageLandmark i ps = averageLandmark i qs \<and>
         averageLandmark i poses = averageLandmark_spec i poses \<and>
         (qualifyingSamples i poses = [] \<longrightarrow>
            averageLandmark i poses = \<lparr>lm_x = 0.5, lm_y = 0.5, lm_z = 0, visibility = Some 0\<rparr>) \<and>
         cal_leftHip (calculateCalibration poses now) = averageLandmark LEFT_HIP poses \<and>
         cal_rightHip (calculateCalibration poses now) = averageLandmark RIGHT_HIP poses \<and>
         cal_leftShoulder (calculateCalibration poses now) = averageLandmark LEFT_SHOULDER poses \<and>
         cal_rightShoulder (calculateCalibration poses now) = averageLandmark RIGHT_SHOULDER poses \<and>
         cal_nose (calculateCalibration poses now) = averageLandmark NOSE poses \<and>
         cal_leftWrist (calculateCalibration poses now) = averageLandmark LEFT_WRIST poses \<and>
         cal_rightWrist (calculateCalibration poses now) = averageLandmark RIGHT_WRIST poses \<and>
         hipCenterY (calculateCalibration poses now) =
           (lm_y (cal_leftHip (calculateCalibration poses now))
            + lm_y (cal_rightHip (calculateCalibration poses now))) / 2"
proof -
  have 1: "averageLandmark i ps = averageLandmark i qs"
    by (simp add: averageLandmark_refines averageLandmark_spec_def
          qualifyingSamples_cong [OF assms])
  have 2: "qualifyingSamples i poses = [] \<longrightarrow>
            averageLandmark i poses = \<lparr>lm_x = 0.5, lm_y = 0.5, lm_z = 0, visibility = Some 0\<rparr>"
    by (simp add: averageLandmark_refines averageLandmark_spec_def)
  show ?thesis
    using 1 2 by (simp add: averageLandmark_refines [symmetric] calculateCalibration_def Let_def)
qed

lemma sample_pose_lms:
  "landmarkAt (landmarks samplePose1) LEFT_HIP =
     Some \<lparr>lm_x = 0.4, lm_y = 0.6, lm_z = 0, visibility = Some 0.9\<rparr>"
  "landmarkAt (landmarks samplePose1) RIGHT_HIP =
     Some \<lparr>lm_x = 0.6, lm_y = 0.6, lm_z = 0, visibility = Some 0.9\<rparr>"
  "landmarkAt (landmarks samplePose1) NOSE = Some hiddenLandmark"
  "landmarkAt (landmarks samplePose2) LEFT_HIP =
     Some \<lparr>lm_x = 0.4, lm_y = 0.8, lm_z = 0, visibility = Some 0.3\<rparr>"
  "landmarkAt (landmarks samplePose2) RIGHT_HIP =
     Some \<lparr>lm_x = 0.6, lm_y = 0.8, lm_z = 0, visibility = Some 0.9\<rparr>"
  "landmarkAt (landmarks samplePose2) NOSE = Some hiddenLandmark"
  "landmarkAt (landmarks samplePose3) LEFT_HIP =
     Some \<lparr>lm_x = 0.4, lm_y = 0.8, lm_z = 0, visibility = Some 0.3\<rparr>"
  by (simp_all add: landmarkAt_def samplePose1_def samplePose2_def samplePose3_def
        LEFT_HIP_def RIGHT_HIP_def NOSE_def)

theorem calibration_averages_per_landmark_witness:
  "map (\<lambda>p. landmarkAt (landmarks p) LEFT_HIP) [samplePose1, samplePose2] =
     map (\<lambda>p. landmarkAt (landmarks p) LEFT_HIP) [samplePose1, samplePose3] \<and>
   samplePose2 \<noteq> samplePose3 \<and>
   averageLandmark LEFT_HIP [samplePose1, samplePose2] =
     averageLandmark LEFT_HIP [samplePose1, samplePose3] \<and>
   averageLandmark LEFT_HIP [samplePose1, samplePose2] =
     \<lparr>lm_x = 0.4, lm_y = 0.6, lm_z = 0, visibility = Some 0.9\<rparr> \<and>
   averageLandmark RIGHT_HIP [samplePose1, samplePose2] =
     \<lparr>lm_x = 0.6, lm_y = 0.7, lm_z = 0, visibility = Some 0.9\<rparr> \<and>
   qualifyingSamples NOSE [samplePose1, samplePose2] = [] \<and>
   averageLandmark NOSE [samplePose1, samplePose2] =
     \<lparr>lm_x = 0.5, lm_y = 0.5, lm_z = 0, visibility = Some 0\<rparr> \<and>
   hipCenterY (calculateCalibration [samplePose1, samplePose2] 0) = 0.65"
proof -
  have h: "map (\<lambda>p. landmarkAt (landmarks p) LEFT_HIP) [samplePose1, samplePose2] =
     map (\<lambda>p. landmarkAt (landmarks p) LEFT_HIP) [samplePose1, samplePose3]"
    by (simp add: sample_pose_lms)
  have d: "samplePose2 \<noteq> samplePose3"
  proof
    assume "samplePose2 = samplePose3"
    then have "landmarkAt (landmarks samplePose2) RIGHT_HIP
                 = landmarkAt (landmarks samplePose3) RIGHT_HIP" by simp
    then show False
      by (simp add: landmarkAt_def samplePose2_def samplePose3_def LEFT_HIP_def RIGHT_HIP_def
            hiddenLandmark_def)
  qed
  have ql: "qualifyingSamples LEFT_HIP [samplePose1, samplePose2] =
      [\<lparr>lm_x = 0.4, lm_y = 0.6, lm_z = 0, visibility = Some 0.9\<rparr>]"
    and qr: "qualifyingSamples RIGHT_HIP [samplePose1, samplePose2] =
      [\<lparr>lm_x = 0.6, lm_y = 0.6, lm_z = 0, visibility = Some 0.9\<rparr>,
       \<lparr>lm_x = 0.6, lm_y = 0.8, lm_z = 0, visibility = Some 0.9\<rparr>]"
    and qn: "qualifyingSamples NOSE [samplePose1, samplePose2] = []"
    by (simp_all add: qualifyingSamples_def sample_pose_lms visibilityOr_def hiddenLandmark_def)
  note t1 = calibration_averages_per_landmark
     [OF h, of "[samplePose1, samplePose2]" 0]
  note t2 = calibration_averages_per_landmark
     [OF refl, of RIGHT_HIP "[samplePose1, samplePose2]" "[samplePose1, samplePose2]" 0]
  note t3 = calibration_averages_per_landmark
     [OF refl, of NOSE "[samplePose1, samplePose2]" "[samplePose1, samplePose2]" 0]
  have a1: "averageLandmark LEFT_HIP [samplePose1, samplePose2] =
     \<lparr>lm_x = 0.4, lm_y = 0.6, lm_z = 0, visibility = Some 0.9\<rparr>"
    using t1 [THEN conjunct2, THEN conjunct1]
    by (simp add: averageLandmark_spec_def ql visibilityOr_def)
  have a2: "averageLandmark RIGHT_HIP [samplePose1, samplePose2] =
     \<lparr>lm_x = 0.6, lm_y = 0.7, lm_z = 0, visibility = Some 0.9\<rparr>"
    using t2 [THEN conjunct2, THEN conjunct1]
    by (simp add: averageLandmark_spec_def qr visibilityOr_def)
  have a3: "averageLandmark NOSE [samplePose1, samplePose2] =
     \<lparr>lm_x = 0.5, lm_y = 0.5, lm_z = 0, visibility = Some 0\<rparr>"
    using t3 [THEN conjunct2, THEN conjunct2, THEN conjunct1] qn by simp
  have a4: "hipCenterY (calculateCalibration [samplePose1, samplePose2] 0) = 0.65"
  proof -
    let ?c = "calculateCalibration [samplePose1, samplePose2] 0"
    from t1 have hc: "hipCenterY ?c = (lm_y (cal_leftHip ?c) + lm_y (cal_rightHip ?c)) / 2"
      and lh: "cal_leftHip ?c = averageLandmark LEFT_HIP [samplePose1, samplePose2]"
      and rh: "cal_rightHip ?c = averageLandmark RIGHT_HIP [samplePose1, samplePose2]"
      by blast+
    show ?thesis unfolding hc lh rh a1 a2 by simp
  qed
  from t1 [THEN conjunct1] have a0: "averageLandmark LEFT_HIP [samplePose1, samplePose2] =
     averageLandmark LEFT_HIP [samplePose1, samplePose3]" by simp
  show ?thesis using h d a0 a1 a2 qn a3 a4 by blast
qed

end
